theory Spec2Isabelle
  imports Complex_Main "HOL-Library.AList" "HOL-Library.Char_ord" "HOL-Library.List_Lexorder"
    "HOL-Library.Multiset"
begin

section \<open>Exceptions, paths and the world\<close>

text \<open>
  The scripts raise and catch Python exceptions. Every exception modelled here is an
  instance of \<open>Exception\<close> carrying its message (what \<open>str(e)\<close> gives); \<open>UserWarning\<close> stands
  for \<open>UserWarning\<close> and its subclasses, the only class the code tells apart, and
  \<open>Error cls m\<close> for an exception of any other class \<open>cls\<close>.
\<close>

datatype exn =
    UserWarning string
  | ValueError string
  | OSError string
  | TypeError string
  | ZeroDivisionError string
  | FileNotFoundError string
  | FileExistsError string
  | Error string string

fun str_exn :: "exn \<Rightarrow> string" where
  "str_exn (UserWarning m) = m"
| "str_exn (ValueError m) = m"
| "str_exn (OSError m) = m"
| "str_exn (TypeError m) = m"
| "str_exn (ZeroDivisionError m) = m"
| "str_exn (FileNotFoundError m) = m"
| "str_exn (FileExistsError m) = m"
| "str_exn (Error cls m) = m"

text \<open>
  A \<open>pathlib\<close> path is the list of its components (\<open>Path.parts\<close>); paths compare as
  Python compares them, component by component, each component as a string.
\<close>

type_synonym path = "string list"

fun join :: "string \<Rightarrow> string list \<Rightarrow> string" where
  "join sep [] = []"
| "join sep [x] = x"
| "join sep (x # y # ys) = x @ sep @ join sep (y # ys)"

text \<open>\<open>d / name\<close> for a relative name of one component; an empty name gives \<open>d\<close>.\<close>

definition joinpath :: "path \<Rightarrow> string \<Rightarrow> path" where
  "joinpath d n = (if n = [] then d else d @ [n])"

definition str_path :: "path \<Rightarrow> string" where
  "str_path p =
     (case p of
        [] \<Rightarrow> ''.''
      | r # rest \<Rightarrow> if r = ''/'' then ''/'' @ join ''/'' rest else join ''/'' p)"

definition path_name :: "path \<Rightarrow> string" where
  "path_name p = (case rev p of [] \<Rightarrow> [] | n # _ \<Rightarrow> if n = ''/'' then [] else n)"

text \<open>\<open>str.rfind('.')\<close>: the index of the last dot, if there is one.\<close>

fun rfind_dot :: "string \<Rightarrow> nat option" where
  "rfind_dot [] = None"
| "rfind_dot (c # cs) =
     (case rfind_dot cs of
        Some i \<Rightarrow> Some (Suc i)
      | None \<Rightarrow> if c = CHR ''.'' then Some 0 else None)"

text \<open>
  \<open>Path.suffix\<close> and \<open>Path.stem\<close>: the name is split at its last dot unless that dot is
  the first or the last character of the name.
\<close>

definition path_suffix :: "path \<Rightarrow> string" where
  "path_suffix p =
     (let n = path_name p in
      case rfind_dot n of
        None \<Rightarrow> []
      | Some i \<Rightarrow> if 0 < i \<and> Suc i < length n then drop i n else [])"

definition path_stem :: "path \<Rightarrow> string" where
  "path_stem p =
     (let n = path_name p in
      case rfind_dot n of
        None \<Rightarrow> n
      | Some i \<Rightarrow> if 0 < i \<and> Suc i < length n then take i n else n)"

fun startswith :: "string \<Rightarrow> string \<Rightarrow> bool" where
  "startswith s [] = True"
| "startswith [] (c # cs) = False"
| "startswith (x # xs) (c # cs) = (x = c \<and> startswith xs cs)"

text \<open>\<open>sub in s\<close> on strings.\<close>

fun contains :: "string \<Rightarrow> string \<Rightarrow> bool" where
  "contains [] sub = (sub = [])"
| "contains (x # xs) sub = (startswith (x # xs) sub \<or> contains xs sub)"

section \<open>The ordering key of \<open>generate_jeff.py\<close>\<close>

text \<open>
  \<open>sort_key\<close> returns the tuple \<open>(1000, path)\<close> for a name that starts with \<open>c_\<close> and the
  tuple \<open>(Z, A, m)\<close> of \<open>openmc.data.zam\<close> otherwise. The two shapes of tuple are the two
  constructors of \<open>key\<close>.
\<close>

datatype key = PathKey nat path | ZamKey nat nat nat

text \<open>
  \<open>sort_key\<close>, lines 63 to 68. \<open>openmc.data.zam\<close> belongs to the OpenMC library, not to
  this repository, and is a parameter: it returns the triple or raises.
\<close>

definition sort_key :: "(string \<Rightarrow> exn + nat \<times> nat \<times> nat) \<Rightarrow> path \<Rightarrow> exn + key" where
  "sort_key zam p =
     (if startswith (path_name p) ''c_'' then Inr (PathKey 1000 p)
      else (case zam (path_stem p) of
              Inl e \<Rightarrow> Inl e
            | Inr (Z, A, m) \<Rightarrow> Inr (ZamKey Z A m)))"

text \<open>
  Python's \<open><\<close> on the two tuples: the first components (both integers) decide unless
  they are equal; then the second components are compared, which for a path against an
  integer raises \<open>TypeError\<close>.
\<close>

fun py_lt :: "key \<Rightarrow> key \<Rightarrow> exn + bool" where
  "py_lt (PathKey n p) (PathKey n' p') = Inr (n < n' \<or> (n = n' \<and> p < p'))"
| "py_lt (ZamKey z a m) (ZamKey z' a' m') =
     Inr (z < z' \<or> (z = z' \<and> (a < a' \<or> (a = a' \<and> m < m'))))"
| "py_lt (PathKey n p) (ZamKey z a m) =
     (if n = z then Inl (TypeError ''< not supported between PosixPath and int'')
      else Inr (n < z))"
| "py_lt (ZamKey z a m) (PathKey n p) =
     (if z = n then Inl (TypeError ''< not supported between int and PosixPath'')
      else Inr (z < n))"

subsection \<open>The library's \<open>zam\<close>\<close>

text \<open>
  The OpenMC library defines \<open>zam(name)\<close> by a full match of the name against
  \<^verbatim>\<open>([A-Zn][a-z]*)(\d+)((?:_[em]\d+)?)\<close> and a lookup of the symbol in its table
  \<open>ATOMIC_NUMBER\<close>; both failures raise \<open>ValueError\<close>. The definition below follows the
  library and is used where a concrete \<open>zam\<close> is needed.
\<close>

definition is_lower :: "char \<Rightarrow> bool" where
  "is_lower c = (c \<in> set ''abcdefghijklmnopqrstuvwxyz'')"

definition is_digit :: "char \<Rightarrow> bool" where
  "is_digit c = (c \<in> set ''0123456789'')"

definition is_symbol_start :: "char \<Rightarrow> bool" where
  "is_symbol_start c = (c \<in> set ''ABCDEFGHIJKLMNOPQRSTUVWXYZn'')"

definition int_of_digits :: "string \<Rightarrow> nat" where
  "int_of_digits ds = foldl (\<lambda>n c. 10 * n + (of_char c - 48)) 0 ds"

definition ATOMIC_NUMBER :: "(string \<times> nat) list" where
  "ATOMIC_NUMBER =
     [(''n'', 0), (''H'', 1), (''He'', 2), (''Li'', 3), (''Be'', 4), (''B'', 5), (''C'', 6),
      (''N'', 7), (''O'', 8), (''F'', 9), (''Ne'', 10), (''Na'', 11), (''Mg'', 12),
      (''Al'', 13), (''Si'', 14), (''P'', 15), (''S'', 16), (''Cl'', 17), (''Ar'', 18),
      (''K'', 19), (''Ca'', 20), (''Sc'', 21), (''Ti'', 22), (''V'', 23), (''Cr'', 24),
      (''Mn'', 25), (''Fe'', 26), (''Co'', 27), (''Ni'', 28), (''Cu'', 29), (''Zn'', 30),
      (''Ga'', 31), (''Ge'', 32), (''As'', 33), (''Se'', 34), (''Br'', 35), (''Kr'', 36),
      (''Rb'', 37), (''Sr'', 38), (''Y'', 39), (''Zr'', 40), (''Nb'', 41), (''Mo'', 42),
      (''Tc'', 43), (''Ru'', 44), (''Rh'', 45), (''Pd'', 46), (''Ag'', 47), (''Cd'', 48),
      (''In'', 49), (''Sn'', 50), (''Sb'', 51), (''Te'', 52), (''I'', 53), (''Xe'', 54),
      (''Cs'', 55), (''Ba'', 56), (''La'', 57), (''Ce'', 58), (''Pr'', 59), (''Nd'', 60),
      (''Pm'', 61), (''Sm'', 62), (''Eu'', 63), (''Gd'', 64), (''Tb'', 65), (''Dy'', 66),
      (''Ho'', 67), (''Er'', 68), (''Tm'', 69), (''Yb'', 70), (''Lu'', 71), (''Hf'', 72),
      (''Ta'', 73), (''W'', 74), (''Re'', 75), (''Os'', 76), (''Ir'', 77), (''Pt'', 78),
      (''Au'', 79), (''Hg'', 80), (''Tl'', 81), (''Pb'', 82), (''Bi'', 83), (''Po'', 84),
      (''At'', 85), (''Rn'', 86), (''Fr'', 87), (''Ra'', 88), (''Ac'', 89), (''Th'', 90),
      (''Pa'', 91), (''U'', 92), (''Np'', 93), (''Pu'', 94), (''Am'', 95), (''Cm'', 96),
      (''Bk'', 97), (''Cf'', 98), (''Es'', 99), (''Fm'', 100), (''Md'', 101), (''No'', 102),
      (''Lr'', 103), (''Rf'', 104), (''Db'', 105), (''Sg'', 106), (''Bh'', 107),
      (''Hs'', 108), (''Mt'', 109), (''Ds'', 110), (''Rg'', 111), (''Cn'', 112),
      (''Nh'', 113), (''Fl'', 114), (''Mc'', 115), (''Lv'', 116), (''Ts'', 117),
      (''Og'', 118)]"

text \<open>The optional third group of the pattern: \<open>_e\<close> or \<open>_m\<close> and at least one digit.\<close>

definition is_state :: "string \<Rightarrow> bool" where
  "is_state s =
     (case s of
        u # k # d # ds \<Rightarrow>
          u = CHR ''_'' \<and> (k = CHR ''e'' \<or> k = CHR ''m'') \<and> list_all is_digit (d # ds)
      | _ \<Rightarrow> False)"

definition not_gnds :: "string \<Rightarrow> exn" where
  "not_gnds name =
     ValueError ([CHR 0x27] @ name @ [CHR 0x27] @
                 '' does not appear to be a nuclide name in GNDS format'')"

definition not_element :: "string \<Rightarrow> exn" where
  "not_element symbol =
     ValueError ([CHR 0x27] @ symbol @ [CHR 0x27] @ '' is not a recognized element symbol'')"

definition gnds_zam :: "string \<Rightarrow> exn + nat \<times> nat \<times> nat" where
  "gnds_zam nm =
     (case nm of
        [] \<Rightarrow> Inl (not_gnds nm)
      | c # cs \<Rightarrow>
          if \<not> is_symbol_start c then Inl (not_gnds nm)
          else
            let symbol = c # takeWhile is_lower cs;
                r1 = dropWhile is_lower cs;
                A = takeWhile is_digit r1;
                state = dropWhile is_digit r1
            in if A = [] \<or> \<not> (state = [] \<or> is_state state) then Inl (not_gnds nm)
               else (case map_of ATOMIC_NUMBER symbol of
                       None \<Rightarrow> Inl (not_element symbol)
                     | Some Z \<Rightarrow>
                         Inr (Z, int_of_digits A,
                              if state = [] then 0 else int_of_digits (drop 2 state))))"


section \<open>The world\<close>

text \<open>
  What the scripts act on: the regular files (in directory order, each path once), the
  directories, the texts printed by the process itself (one entry for each \<open>print\<close> call),
  the texts that pool workers have printed into the buffers of their own processes, the
  number of \<open>response.read\<close> calls made on the network, the calls made to the converters of
  the OpenMC library, and the files registered in the \<open>DataLibrary\<close>. Failures of the
  operating system on creating directories and on opening and writing files are outside
  the model.
\<close>

datatype call =
    NeutronFromNjoy path "real list option"
  | ThermalFromEndf path
  | ThermalFromNjoy path path bool
  | PhotonFromEndf path path
  | ExportToHdf5 path string

record world =
  fs :: "(path \<times> string) list"
  dirs :: "path set"
  stdout :: "string list"
  worker_stdout :: "string list"
  reads :: nat
  calls :: "call list"
  library :: "path list"

definition print :: "string \<Rightarrow> world \<Rightarrow> world" where
  "print s w = w\<lparr>stdout := stdout w @ [s]\<rparr>"

definition is_file :: "path \<Rightarrow> world \<Rightarrow> bool" where
  "is_file p w = (map_of (fs w) p \<noteq> None)"

definition write_file :: "path \<Rightarrow> string \<Rightarrow> world \<Rightarrow> world" where
  "write_file p s w = w\<lparr>fs := AList.update p s (fs w)\<rparr>"

definition append_file :: "path \<Rightarrow> string \<Rightarrow> world \<Rightarrow> world" where
  "append_file p s w =
     (case map_of (fs w) p of
        None \<Rightarrow> write_file p s w
      | Some old \<Rightarrow> write_file p (old @ s) w)"

text \<open>\<open>Path.mkdir(parents=True, exist_ok=True)\<close>: the directory and every ancestor.\<close>

definition mkdir_parents :: "path \<Rightarrow> world \<Rightarrow> world" where
  "mkdir_parents d w = w\<lparr>dirs := dirs w \<union> set (map (\<lambda>n. take n d) [1..<Suc (length d)])\<rparr>"

definition unlink :: "path \<Rightarrow> world \<Rightarrow> (exn + unit) \<times> world" where
  "unlink p w =
     (if is_file p w then (Inr (), w\<lparr>fs := AList.delete p (fs w)\<rparr>)
      else (Inl (FileNotFoundError (str_path p)), w))"

section \<open>\<open>utils.download\<close>\<close>

text \<open>
  The network and the standard library, as \<open>download\<close> uses them: \<open>urlopen\<close> gives a
  response (its \<open>length\<close>, the \<open>Content-Length\<close> header when there is one, and its body) or
  raises; \<open>url_filename url\<close> is \<open>Path(urlparse(url).path).name\<close>; \<open>md5_hexdigest\<close> is
  \<open>hashlib.md5(...).hexdigest()\<close>; \<open>status_text downloaded file_size\<close> is the formatted
  progress text, which the code computes in floating point.
\<close>

record response =
  resp_length :: "nat option"
  resp_body :: string

record web =
  urlopen :: "string \<Rightarrow> bool \<Rightarrow> exn + response"
  url_filename :: "string \<Rightarrow> string"
  md5_hexdigest :: "string \<Rightarrow> string"
  status_text :: "nat \<Rightarrow> nat \<Rightarrow> string"

definition BLOCK_SIZE :: nat where
  "BLOCK_SIZE = 16384"

text \<open>
  The \<open>while True\<close> loop of lines 110 to 118. Each round reads one block; an empty block
  ends the loop. The progress line divides by \<open>file_size\<close>: that raises \<open>TypeError\<close> when
  the response had no length and \<open>ZeroDivisionError\<close> when the length is 0.
\<close>

function copy_chunks ::
  "web \<Rightarrow> nat option \<Rightarrow> path \<Rightarrow> string \<Rightarrow> nat \<Rightarrow> world \<Rightarrow> (exn + unit) \<times> world" where
  "copy_chunks net file_size local_path rest downloaded w =
     (let chunk = take BLOCK_SIZE rest;
          w1 = w\<lparr>reads := Suc (reads w)\<rparr>
      in if chunk = [] then (Inr (), w1)
         else
           (let w2 = append_file local_path chunk w1;
                downloaded' = downloaded + length chunk
            in case file_size of
                 None \<Rightarrow> (Inl (TypeError ''unsupported operand type(s) for /''), w2)
               | Some n \<Rightarrow>
                   if n = 0 then (Inl (ZeroDivisionError ''float division by zero''), w2)
                   else
                     (let status = status_text net downloaded' n
                      in copy_chunks net file_size local_path (drop BLOCK_SIZE rest)
                           downloaded'
                           (print (status @ replicate (length status) (CHR 0x08)) w2))))"
  by pat_completeness auto
termination
  by (relation "measure (\<lambda>(net, file_size, local_path, rest, downloaded, w). length rest)")
     (auto simp: BLOCK_SIZE_def)

declare copy_chunks.simps [simp del]

definition checksum_message :: "path \<Rightarrow> string" where
  "checksum_message local_path =
     ''MD5 checksum for '' @ str_path local_path @
     '' does not match. If this is your first time receiving this message, please '' @
     ''re-run the script. Otherwise, please contact OpenMC developers by emailing '' @
     ''openmc-users@googlegroups.com.''"

definition download ::
  "web \<Rightarrow> path \<Rightarrow> string \<Rightarrow> string option \<Rightarrow> bool \<Rightarrow> path option \<Rightarrow> world
     \<Rightarrow> (exn + path) \<times> world" where
  "download net cwd url checksum as_browser output_path w =
     (case urlopen net url as_browser of
        Inl e \<Rightarrow> (Inl e, w)
      | Inr response \<Rightarrow>
          (let file_size = resp_length response;
               w1 = (case output_path of None \<Rightarrow> w | Some d \<Rightarrow> mkdir_parents d w);
               local_path =
                 joinpath (case output_path of None \<Rightarrow> cwd | Some d \<Rightarrow> d)
                   (url_filename net url)
           in if is_file local_path w1 \<and>
                 map_option length (map_of (fs w1) local_path) = file_size
              then (Inr local_path,
                    print (''Skipping '' @ str_path local_path @ '', already downloaded'') w1)
              else
                (let w2 = print (''Downloading '' @ str_path local_path @ ''... '') w1;
                     w3 = write_file local_path [] w2
                 in case copy_chunks net file_size local_path (resp_body response) 0 w3 of
                      (Inl e, w4) \<Rightarrow> (Inl e, w4)
                    | (Inr u, w4) \<Rightarrow>
                        (let w5 = print [] w4
                         in case checksum of
                              None \<Rightarrow> (Inr local_path, w5)
                            | Some c \<Rightarrow>
                                (case map_of (fs w5) local_path of
                                   None \<Rightarrow> (Inl (FileNotFoundError (str_path local_path)), w5)
                                 | Some bytes \<Rightarrow>
                                     if md5_hexdigest net bytes \<noteq> c
                                     then (Inl (OSError (checksum_message local_path)), w5)
                                     else (Inr local_path, w5))))))"


section \<open>\<open>utils.extract\<close>\<close>

text \<open>
  \<open>extract\<close> of \<open>utils.py\<close> is \<open>extract_archive\<close> here (\<open>extract\<close> is a command of Isabelle).
  \<open>zipfile\<close> and \<open>tarfile\<close> are parameters: given the bytes of the archive, opening it
  raises or succeeds, and then \<open>extractall\<close> yields the members written (relative path and
  content) and the exception raised while extracting, if any. The flag
  of \<open>untar\<close> says whether \<open>filter='data'\<close> is passed, which the code does on Python 3.12
  and later (\<open>has_filter\<close> is \<open>sys.version_info >= (3, 12)\<close>).
\<close>

record archivers =
  unzip :: "string \<Rightarrow> exn + (path \<times> string) list \<times> exn option"
  untar :: "bool \<Rightarrow> string \<Rightarrow> exn + (path \<times> string) list \<times> exn option"

fun extractall :: "path \<Rightarrow> (path \<times> string) list \<Rightarrow> world \<Rightarrow> world" where
  "extractall dir [] w = w"
| "extractall dir ((rel, content) # members) w =
     extractall dir members (write_file (dir @ rel) content (mkdir_parents (butlast (dir @ rel)) w))"

definition unsupported :: "path \<Rightarrow> exn" where
  "unsupported p =
     ValueError (''File type not currently supported by extraction function '' @ str_path p)"

definition extract_archive ::
  "archivers \<Rightarrow> bool \<Rightarrow> path \<Rightarrow> path \<Rightarrow> path option \<Rightarrow> bool \<Rightarrow> bool \<Rightarrow> world
     \<Rightarrow> (exn + unit) \<times> world" where
  "extract_archive ar has_filter cwd compressed_file extraction_dir del_compressed_file verbose w =
     (let dir = (case extraction_dir of None \<Rightarrow> cwd | Some d \<Rightarrow> d);
          w1 = mkdir_parents dir w;
          p = compressed_file;
          opened =
            (if path_suffix p = ''.zip'' then
               (case map_of (fs w1) p of
                  None \<Rightarrow> Inl (FileNotFoundError (str_path p))
                | Some bytes \<Rightarrow> unzip ar bytes)
             else if path_suffix p \<in>
                       set [''.gz'', ''.bz2'', ''.xz'', ''.lzma'', ''.zst'', ''.tgz'', ''.tar'']
             then
               (case map_of (fs w1) p of
                  None \<Rightarrow> Inl (FileNotFoundError (str_path p))
                | Some bytes \<Rightarrow> untar ar has_filter bytes)
             else Inl (unsupported p))
      in case opened of
           Inl e \<Rightarrow> (Inl e, w1)
         | Inr (members, failure) \<Rightarrow>
             (let w2 = (if verbose
                        then print (''Extracting '' @ str_path p @ '' to '' @ str_path dir) w1
                        else w1);
                  w3 = extractall dir members w2
              in case failure of
                   Some e \<Rightarrow> (Inl e, w3)
                 | None \<Rightarrow> if del_compressed_file then unlink p w3 else (Inr (), w3)))"

section \<open>\<open>utils.fix_missing_tpid\<close>\<close>





section \<open>The conversion workers of \<open>utils.py\<close>\<close>

text \<open>
  The OpenMC library is a parameter. Each converter gives the data object (its name and
  what it holds) or raises. \<open>neutron_from_njoy\<close>, \<open>thermal_from_njoy\<close> and
  \<open>photon_from_endf\<close> stand for the calls as the code makes them, with \<open>UserWarning\<close>
  ignored where the code says so; \<open>thermal_from_endf\<close> stands for the probing call under
  \<open>catch_warnings(action='error', category=UserWarning)\<close>, so a \<open>UserWarning\<close> that the
  library signals comes out as the exception \<open>UserWarning msg\<close>. \<open>export_to_hdf5\<close> gives the
  bytes written for a versioning mode, or raises. The evaluation files are only read
  during a run, so the outcome of a converter is a function of the paths.
\<close>

datatype data = Data (data_name: string) (data_payload: string)

record openmc =
  neutron_from_njoy :: "path \<Rightarrow> real list option \<Rightarrow> exn + data"
  thermal_from_endf :: "path \<Rightarrow> exn + unit"
  thermal_from_njoy :: "path \<Rightarrow> path \<Rightarrow> bool \<Rightarrow> exn + data"
  photon_from_endf :: "path \<Rightarrow> path \<Rightarrow> exn + data"
  export_to_hdf5 :: "data \<Rightarrow> string \<Rightarrow> exn + string"
  zam :: "string \<Rightarrow> exn + nat \<times> nat \<times> nat"
  library_xml :: "path list \<Rightarrow> string"

definition called :: "call \<Rightarrow> world \<Rightarrow> world" where
  "called c w = w\<lparr>calls := calls w @ [c]\<rparr>"

text \<open>\<open>data.export_to_hdf5(h5_file, 'w', libver=libver)\<close>.\<close>

definition export :: "openmc \<Rightarrow> data \<Rightarrow> path \<Rightarrow> string \<Rightarrow> world \<Rightarrow> (exn + unit) \<times> world" where
  "export omc d h5_file libver w =
     (let w1 = called (ExportToHdf5 h5_file libver) w
      in case export_to_hdf5 omc d libver of
           Inl e \<Rightarrow> (Inl e, w1)
         | Inr bytes \<Rightarrow> (Inr (), write_file h5_file bytes w1))"

definition process_neutron ::
  "openmc \<Rightarrow> path \<Rightarrow> path \<Rightarrow> string \<Rightarrow> real list option \<Rightarrow> world \<Rightarrow> (exn + unit) \<times> world" where
  "process_neutron omc p output_dir libver temperatures w =
     (let w1 = print (''Converting: '' @ str_path p) w;
          w2 = called (NeutronFromNjoy p temperatures) w1
      in case neutron_from_njoy omc p temperatures of
           Inl e \<Rightarrow> (Inl e, print (str_path p @ '' '' @ str_exn e) w2)
         | Inr d \<Rightarrow>
             (let h5_file = output_dir @ [data_name d @ ''.h5''];
                  w3 = print (''Writing '' @ str_path h5_file @ '' ...'') w2
              in export omc d h5_file libver w3))"

text \<open>
  Lines 41 to 47 of \<open>process_thermal\<close>: the value of \<open>divide_incoherent_elastic\<close> after the
  probe, as a function of the outcome of the probing call. The probe is inside
  \<open>try ... except UserWarning\<close>: a \<open>UserWarning\<close> sets the flag when its text contains the
  name of the option, and any other exception of the probe leaves the function at once.
\<close>

definition probe_flag :: "exn + unit \<Rightarrow> exn + bool" where
  "probe_flag outcome =
     (case outcome of
        Inr u \<Rightarrow> Inr False
      | Inl (UserWarning msg) \<Rightarrow> Inr (contains msg ''divide_incoherent_elastic'')
      | Inl e \<Rightarrow> Inl e)"

definition process_thermal ::
  "openmc \<Rightarrow> path \<Rightarrow> path \<Rightarrow> path \<Rightarrow> string \<Rightarrow> world \<Rightarrow> (exn + unit) \<times> world" where
  "process_thermal omc path_neutron path_thermal output_dir libver w =
     (let w1 = print (''Converting: '' @ str_path path_thermal) w;
          w2 = called (ThermalFromEndf path_thermal) w1
      in case probe_flag (thermal_from_endf omc path_thermal) of
           Inl e \<Rightarrow> (Inl e, w2)
         | Inr divide_incoherent_elastic \<Rightarrow>
             (let w3 = called (ThermalFromNjoy path_neutron path_thermal
                                 divide_incoherent_elastic) w2
              in case thermal_from_njoy omc path_neutron path_thermal
                        divide_incoherent_elastic of
                   Inl e \<Rightarrow>
                     (Inl e,
                      print (str_path path_neutron @ '' '' @ str_path path_thermal @ '' '' @
                             str_exn e) w3)
                 | Inr d \<Rightarrow>
                     (let h5_file = output_dir @ [data_name d @ ''.h5''];
                          w4 = print (''Writing '' @ str_path h5_file @ '' ...'') w3
                      in export omc d h5_file libver w4)))"

section \<open>The conversion stages of \<open>generate_jeff.main\<close>\<close>

text \<open>
  \<open>Path.glob\<close> and \<open>Path.rglob\<close> with a pattern \<open>pre*suf\<close>: the files in the directory
  (for \<open>rglob\<close>, anywhere below it) whose name starts with \<open>pre\<close> and ends with \<open>suf\<close>, in
  directory order.
\<close>

definition fnmatch :: "string \<Rightarrow> string \<Rightarrow> string \<Rightarrow> bool" where
  "fnmatch pre suf n =
     (length pre + length suf \<le> length n \<and> take (length pre) n = pre \<and>
      drop (length n - length suf) n = suf)"

text \<open>The paths of the regular files, each once, in directory order.\<close>

definition files :: "world \<Rightarrow> path list" where
  "files w = map fst (AList.clearjunk (fs w))"

definition glob :: "path \<Rightarrow> string \<Rightarrow> string \<Rightarrow> world \<Rightarrow> path list" where
  "glob dir pre suf w =
     filter (\<lambda>p. p \<noteq> [] \<and> butlast p = dir \<and> fnmatch pre suf (last p)) (files w)"

definition rglob :: "path \<Rightarrow> string \<Rightarrow> string \<Rightarrow> world \<Rightarrow> path list" where
  "rglob dir pre suf w =
     filter (\<lambda>p. length dir < length p \<and> take (length dir) p = dir \<and> fnmatch pre suf (last p))
       (files w)"

text \<open>
  \<open>sorted(xs, key=f)\<close>: the key of every element is computed first, in order, then the
  elements are sorted stably with \<open><\<close> on the keys; an exception of \<open>f\<close> or of \<open><\<close> leaves
  \<open>sorted\<close>. The sort is written as a stable insertion sort: when no comparison raises
  the stable order is unique, so the result is the one of CPython's sort.
\<close>

fun keyed :: "('a \<Rightarrow> exn + key) \<Rightarrow> 'a list \<Rightarrow> exn + (key \<times> 'a) list" where
  "keyed f [] = Inr []"
| "keyed f (x # xs) =
     (case f x of
        Inl e \<Rightarrow> Inl e
      | Inr k \<Rightarrow> (case keyed f xs of Inl e \<Rightarrow> Inl e | Inr ks \<Rightarrow> Inr ((k, x) # ks)))"

fun insort_py :: "key \<times> 'a \<Rightarrow> (key \<times> 'a) list \<Rightarrow> exn + (key \<times> 'a) list" where
  "insort_py x [] = Inr [x]"
| "insort_py x (y # ys) =
     (case py_lt (fst y) (fst x) of
        Inl e \<Rightarrow> Inl e
      | Inr b \<Rightarrow>
          if b then (case insort_py x ys of Inl e \<Rightarrow> Inl e | Inr zs \<Rightarrow> Inr (y # zs))
          else Inr (x # y # ys))"

fun sort_py :: "(key \<times> 'a) list \<Rightarrow> exn + (key \<times> 'a) list" where
  "sort_py [] = Inr []"
| "sort_py (x # xs) = (case sort_py xs of Inl e \<Rightarrow> Inl e | Inr ys \<Rightarrow> insort_py x ys)"

definition py_sorted :: "('a \<Rightarrow> exn + key) \<Rightarrow> 'a list \<Rightarrow> exn + 'a list" where
  "py_sorted f xs =
     (case keyed f xs of
        Inl e \<Rightarrow> Inl e
      | Inr ks \<Rightarrow> (case sort_py ks of Inl e \<Rightarrow> Inl e | Inr ys \<Rightarrow> Inr (map snd ys)))"

text \<open>
  The worker pool. \<open>pool.apply_async(f, args)\<close> runs the job in a worker and keeps its
  outcome, the value or the exception, in the \<open>AsyncResult\<close> it returns. The jobs of a
  stage write different files; they are run here in the order of submission. What a job
  prints goes to the output buffer of its worker process, not to the output of the
  orchestrator: it is kept apart in \<open>worker_stdout\<close>, and nothing says that it is flushed
  before the exit of \<open>with Pool()\<close> terminates the workers.
  \<open>AsyncResult.wait()\<close> blocks until the outcome is there and returns \<open>None\<close>: it is
  \<open>AsyncResult.get()\<close> that would raise the stored exception, and \<open>main\<close> does not call it.
\<close>

datatype async_result = AsyncResult "exn + unit"

definition apply_async ::
  "(world \<Rightarrow> (exn + unit) \<times> world) \<Rightarrow> world \<Rightarrow> async_result \<times> world" where
  "apply_async job w =
     (case job w of
        (r, w') \<Rightarrow>
          (AsyncResult r,
           w'\<lparr>stdout := stdout w,
              worker_stdout := worker_stdout w @ drop (length (stdout w)) (stdout w')\<rparr>))"

fun wait :: "async_result \<Rightarrow> exn + unit" where
  "wait (AsyncResult r) = Inr ()"

text \<open>The loop that submits (\<open>results.append(r)\<close>) and the loop \<open>for r in results: r.wait()\<close>.\<close>

fun submit :: "(world \<Rightarrow> (exn + unit) \<times> world) list \<Rightarrow> world \<Rightarrow> async_result list \<times> world" where
  "submit [] w = ([], w)"
| "submit (job # jobs) w =
     (case apply_async job w of
        (r, w1) \<Rightarrow> (case submit jobs w1 of (rs, w2) \<Rightarrow> (r # rs, w2)))"

fun wait_all :: "async_result list \<Rightarrow> exn + unit" where
  "wait_all [] = Inr ()"
| "wait_all (r # rs) = (case wait r of Inl e \<Rightarrow> Inl e | Inr u \<Rightarrow> wait_all rs)"

definition register_file :: "path \<Rightarrow> world \<Rightarrow> world" where
  "register_file p w = w\<lparr>library := library w @ [p]\<rparr>"

fun register_all :: "path list \<Rightarrow> world \<Rightarrow> world" where
  "register_all [] w = w"
| "register_all (p # ps) w = register_all ps (register_file p w)"

record args =
  destination :: path
  libver :: string
  release :: string
  particles :: "string list"
  temperatures :: "real list"

text \<open>
  The end of both pool stages:
  \<open>for p in sorted((args.destination / particle).glob('*.h5'), key=sort_key)\<close>.
\<close>

definition register_sorted :: "openmc \<Rightarrow> path \<Rightarrow> world \<Rightarrow> (exn + unit) \<times> world" where
  "register_sorted omc dir w =
     (case py_sorted (sort_key (zam omc)) (glob dir [] ''.h5'' w) of
        Inl e \<Rightarrow> (Inl e, w)
      | Inr ps \<Rightarrow> (Inr (), register_all ps w))"

text \<open>Lines 332 to 347; \<open>endf_files\<close> is the listing \<open>neutron_dir.rglob('*.jeff')\<close>.\<close>

definition main_neutron :: "openmc \<Rightarrow> args \<Rightarrow> path list \<Rightarrow> world \<Rightarrow> (exn + unit) \<times> world" where
  "main_neutron omc a endf_files w =
     (let out = destination a @ [''neutron''];
          jobs = map (\<lambda>filename. process_neutron omc filename out (libver a)
                                   (Some (temperatures a))) endf_files
      in case submit jobs w of
           (results, w1) \<Rightarrow>
             (case wait_all results of
                Inl e \<Rightarrow> (Inl e, w1)
              | Inr u \<Rightarrow> register_sorted omc out w1))"

text \<open>Lines 352 to 367; \<open>sab_files\<close> is the table of pairs of lines 102 to 272.\<close>

definition main_thermal ::
  "openmc \<Rightarrow> args \<Rightarrow> path \<Rightarrow> path \<Rightarrow> (string \<times> string) list \<Rightarrow> world \<Rightarrow> (exn + unit) \<times> world" where
  "main_thermal omc a neutron_dir thermal_dir sab_files w =
     (let out = destination a @ [''thermal''];
          jobs = map (\<lambda>(path_neutron, path_thermal).
                        process_thermal omc (neutron_dir @ [path_neutron])
                          (thermal_dir @ [path_thermal]) out (libver a)) sab_files
      in case submit jobs w of
           (results, w1) \<Rightarrow>
             (case wait_all results of
                Inl e \<Rightarrow> (Inl e, w1)
              | Inr u \<Rightarrow> register_sorted omc out w1))"

text \<open>
  Lines 372 to 386: the body of the \<open>for\<close> loop over the pairs, run in the orchestrator
  itself, one pair after the other; an exception ends the loop and the run.
\<close>

fun photon_loop :: "openmc \<Rightarrow> args \<Rightarrow> (path \<times> path) list \<Rightarrow> world \<Rightarrow> (exn + unit) \<times> world" where
  "photon_loop omc a [] w = (Inr (), w)"
| "photon_loop omc a ((photo_path, atom_path) # rest) w =
     (let w1 = print (''Converting: '' @ path_name photo_path @ '' '' @ path_name atom_path) w;
          w2 = called (PhotonFromEndf photo_path atom_path) w1
      in case photon_from_endf omc photo_path atom_path of
           Inl e \<Rightarrow> (Inl e, w2)
         | Inr d \<Rightarrow>
             (let h5_file = destination a @ [''photon'', data_name d @ ''.h5'']
              in case export omc d h5_file (libver a) w2 of
                   (Inl e, w3) \<Rightarrow> (Inl e, w3)
                 | (Inr u, w3) \<Rightarrow> photon_loop omc a rest (register_file h5_file w3)))"

definition main_photon ::
  "openmc \<Rightarrow> args \<Rightarrow> path list \<Rightarrow> path list \<Rightarrow> world \<Rightarrow> (exn + unit) \<times> world" where
  "main_photon omc a photo_files atom_files w =
     photon_loop omc a (zip (sort photo_files) (sort atom_files)) w"

text \<open>
  \<open>main\<close> from line 322 on, after the downloads and the extraction: the output
  directories, the empty \<open>DataLibrary\<close>, the three stages for the particles asked for, and
  \<open>cross_sections.xml\<close>. The listings are taken when their stage starts.
\<close>

definition main_process ::
  "openmc \<Rightarrow> path \<Rightarrow> (string \<times> string) list \<Rightarrow> args \<Rightarrow> world \<Rightarrow> (exn + unit) \<times> world" where
  "main_process omc cwd sab_files a w =
     (let endf_files_dir = cwd @ [''jeff-'' @ release a @ ''-endf''];
          neutron_dir = endf_files_dir @ [''neutron''];
          thermal_dir = endf_files_dir @ [''thermal''];
          photon_dir = endf_files_dir @ [''photon''];
          w0 = (foldl (\<lambda>w' particle. mkdir_parents (destination a @ [particle]) w') w
                  (particles a))\<lparr>library := []\<rparr>
      in case (if ''neutron'' \<in> set (particles a)
               then main_neutron omc a (rglob neutron_dir [] ''.jeff'' w0) w0
               else (Inr (), w0)) of
           (Inl e, w1) \<Rightarrow> (Inl e, w1)
         | (Inr u, w1) \<Rightarrow>
             (case (if ''thermal'' \<in> set (particles a)
                    then main_thermal omc a neutron_dir thermal_dir sab_files w1
                    else (Inr (), w1)) of
                (Inl e, w2) \<Rightarrow> (Inl e, w2)
              | (Inr u, w2) \<Rightarrow>
                  (case (if ''photon'' \<in> set (particles a)
                         then main_photon omc a (rglob photon_dir ''photoat'' ''.endf'' w2)
                                (rglob photon_dir ''atom'' ''.endf'' w2) w2
                         else (Inr (), w2)) of
                     (Inl e, w3) \<Rightarrow> (Inl e, w3)
                   | (Inr u, w3) \<Rightarrow>
                       (Inr (),
                        write_file (destination a @ [''cross_sections.xml''])
                          (library_xml omc (library w3)) w3))))"

section \<open>Stated properties and sample data\<close>

text \<open>
  \<open>sorts_before zm p q\<close>: both keys are computed, the key of \<open>p\<close> is less than the key
  of \<open>q\<close>, and not the other way round; so \<open>sorted\<close> puts \<open>p\<close> before \<open>q\<close>.
\<close>

definition sorts_before :: "(string \<Rightarrow> exn + nat \<times> nat \<times> nat) \<Rightarrow> path \<Rightarrow> path \<Rightarrow> bool" where
  "sorts_before zm p q =
     (case sort_key zm p of
        Inl e \<Rightarrow> False
      | Inr k \<Rightarrow>
          (case sort_key zm q of
             Inl e \<Rightarrow> False
           | Inr k' \<Rightarrow> py_lt k k' = Inr True \<and> py_lt k' k = Inr False))"

text \<open>
  \<open>in_key_order zm p q\<close>: both keys are computed and the key of \<open>q\<close> is not less than the
  key of \<open>p\<close>. A list is \<open>key_sorted\<close> when every key is computed and no element has a
  key less than the key of an element before it.
\<close>

definition in_key_order :: "(string \<Rightarrow> exn + nat \<times> nat \<times> nat) \<Rightarrow> path \<Rightarrow> path \<Rightarrow> bool" where
  "in_key_order zm p q =
     (case sort_key zm p of
        Inl e \<Rightarrow> False
      | Inr k \<Rightarrow>
          (case sort_key zm q of
             Inl e \<Rightarrow> False
           | Inr k' \<Rightarrow> py_lt k' k = Inr False))"

definition key_sorted :: "(string \<Rightarrow> exn + nat \<times> nat \<times> nat) \<Rightarrow> path list \<Rightarrow> bool" where
  "key_sorted zm ps = (list_all (\<lambda>p. in_key_order zm p p) ps \<and> sorted_wrt (in_key_order zm) ps)"

text \<open>The keys that \<open>sort_key\<close> builds when every atomic number is below the sentinel.\<close>

fun sentinel_above :: "key \<Rightarrow> bool" where
  "sentinel_above (PathKey n p) = (n = 1000)"
| "sentinel_above (ZamKey z a m) = (z < 1000)"




definition sample_args :: args where
  "sample_args =
     \<lparr>destination = [''jeff-4.0-hdf5''], libver = ''earliest'', release = ''4.0'',
      particles = [''neutron'', ''thermal'', ''photon''],
      temperatures = [250, 293.6, 600, 900, 1200, 2500]\<rparr>"

definition blank_world :: world where
  "blank_world =
     \<lparr>fs = [], dirs = {}, stdout = [], worker_stdout = [], reads = 0, calls = [],
      library = []\<rparr>"

text \<open>A site that serves four bytes; the digest function is MD5 on the inputs that occur.\<close>

definition sample_site :: web where
  "sample_site =
     \<lparr>urlopen = (\<lambda>url as_browser. Inr \<lparr>resp_length = Some 4, resp_body = ''data''\<rparr>),
      url_filename = (\<lambda>url. ''JEFF40-Evaluations-TSL.zip''),
      md5_hexdigest = (\<lambda>bytes. if bytes = ''data'' then ''8d777f385d3dfec8815d20f7496026dc''
                                 else ''d41d8cd98f00b204e9800998ecf8427e''),
      status_text = (\<lambda>downloaded file_size. ''         4  [100.00%]'')\<rparr>"

definition sample_url :: string where
  "sample_url =
     ''https://data.oecd-nea.org/records/scmva-nqh68/files/JEFF40-Evaluations-TSL.zip?download=1''"

text \<open>The world that a first download with the checksum of the manifest leaves behind.\<close>

definition corrupt_world :: world where
  "corrupt_world =
     snd (download sample_site [''run''] sample_url (Some ''13d22cd59f83368885ab2d86300b470a'')
            False (Some [''dl'']) blank_world)"

text \<open>A library whose converters accept some files and raise on the others.\<close>

definition sample_archivers :: archivers where
  "sample_archivers =
     \<lparr>unzip = (\<lambda>bytes. Inr ([([''a.jeff''], bytes)], None)),
      untar = (\<lambda>flt bytes. Inr ([([''b.endf''], bytes)], None))\<rparr>"

definition sample_openmc :: openmc where
  "sample_openmc =
     \<lparr>neutron_from_njoy = (\<lambda>p t.
          if path_name p = ''n_1-H-001g.jeff'' then Inr (Data ''H1'' ''h1'')
          else if path_name p = ''n_92-U-235g.jeff'' then Inr (Data ''U235'' ''u235'')
          else Inl (Error ''CalledProcessError'' ''njoy failed'')),
      thermal_from_endf = (\<lambda>p.
          if path_name p = ''tsl_H_H2O.jeff''
          then Inl (UserWarning ''set divide_incoherent_elastic=True'')
          else if path_name p = ''tsl_Be_Be.jeff'' then Inr ()
          else if path_name p = ''tsl_D_D2O.jeff'' then Inl (UserWarning ''unknown material'')
          else Inl (FileNotFoundError (str_path p))),
      thermal_from_njoy = (\<lambda>pn pt flag.
          if path_name pt = ''tsl_H_H2O.jeff'' \<and> flag then Inr (Data ''c_H_in_H2O'' ''h2o'')
          else Inl (Error ''CalledProcessError'' ''njoy failed'')),
      photon_from_endf = (\<lambda>p a.
          if path_name p = ''photoat-001_H_000.endf'' then Inr (Data ''H'' ''h'')
          else if path_name p = ''photoat-002_He_000.endf'' then Inr (Data ''He'' ''he'')
          else Inl (ValueError ''not an ENDF file'')),
      export_to_hdf5 = (\<lambda>d lv. Inr (data_payload d)),
      zam = gnds_zam,
      library_xml = (\<lambda>ps. concat (map str_path ps))\<rparr>"

text \<open>The same library on a full disk: every export raises.\<close>

definition full_disk_openmc :: openmc where
  "full_disk_openmc =
     sample_openmc\<lparr>export_to_hdf5 := (\<lambda>d lv. Inl (OSError ''No space left on device''))\<rparr>"




text \<open>
  A tree after extraction: three neutron evaluations (the library's converter fails on
  the plutonium file), a thermal evaluation, and two photon pairs listed out of order.
\<close>

definition sample_world :: world where
  "sample_world =
     blank_world\<lparr>fs :=
       [([''run'', ''jeff-4.0-endf'', ''neutron'', ''n_92-U-235g.jeff''], ''u235''),
        ([''run'', ''jeff-4.0-endf'', ''neutron'', ''n_94-Pu-239g.jeff''], ''pu239''),
        ([''run'', ''jeff-4.0-endf'', ''neutron'', ''n_1-H-001g.jeff''], ''h1''),
        ([''run'', ''jeff-4.0-endf'', ''thermal'', ''tsl_H_H2O.jeff''], ''h2o''),
        ([''run'', ''jeff-4.0-endf'', ''photon'', ''photoat'', ''photoat-002_He_000.endf''],
         ''he''),
        ([''run'', ''jeff-4.0-endf'', ''photon'', ''photoat'', ''photoat-001_H_000.endf''],
         ''h''),
        ([''run'', ''jeff-4.0-endf'', ''photon'', ''atomic_relax'', ''atom-001_H_000.endf''],
         ''h''),
        ([''run'', ''jeff-4.0-endf'', ''photon'', ''atomic_relax'', ''atom-002_He_000.endf''],
         ''he'')]\<rparr>"

definition sample_neutron_files :: "path list" where
  "sample_neutron_files =
     [[''run'', ''jeff-4.0-endf'', ''neutron'', ''n_92-U-235g.jeff''],
      [''run'', ''jeff-4.0-endf'', ''neutron'', ''n_94-Pu-239g.jeff''],
      [''run'', ''jeff-4.0-endf'', ''neutron'', ''n_1-H-001g.jeff'']]"



text \<open>
  A photon tree that holds the hydrogen files twice, in two subdirectories, as after
  extracting two releases; \<open>rglob\<close> lists both copies.
\<close>

definition duplicate_world :: world where
  "duplicate_world =
     blank_world\<lparr>fs :=
       [([''run'', ''jeff-4.0-endf'', ''photon'', ''photoat'', ''photoat-001_H_000.endf''],
         ''h''),
        ([''run'', ''jeff-4.0-endf'', ''photon'', ''photoat-VIII.0'',
          ''photoat-001_H_000.endf''], ''h''),
        ([''run'', ''jeff-4.0-endf'', ''photon'', ''atomic_relax'', ''atom-001_H_000.endf''],
         ''h''),
        ([''run'', ''jeff-4.0-endf'', ''photon'', ''atomic_relax-VIII.0'',
          ''atom-001_H_000.endf''], ''h'')]\<rparr>"

section \<open>Files\<close>

lemma map_of_write_file [simp]:
  "map_of (fs (write_file p s w)) = (map_of (fs w))(p \<mapsto> s)"
  by (simp add: write_file_def update_conv')

lemma map_of_append_file:
  "map_of (fs (append_file p s w)) p =
     Some ((case map_of (fs w) p of None \<Rightarrow> [] | Some old \<Rightarrow> old) @ s)"
  by (simp add: append_file_def split: option.splits)

lemma map_of_append_file_other:
  "q \<noteq> p \<Longrightarrow> map_of (fs (append_file p s w)) q = map_of (fs w) q"
  by (simp add: append_file_def split: option.splits)




section \<open>Download\<close>

lemma download_skip:
  assumes "urlopen net url as_browser = Inr response"
    and "local_path =
           joinpath (case output_path of None \<Rightarrow> cwd | Some d \<Rightarrow> d) (url_filename net url)"
    and "map_of (fs w) local_path = Some bytes"
    and "resp_length response = Some (length bytes)"
  shows "download net cwd url checksum as_browser output_path w =
           (Inr local_path,
            print (''Skipping '' @ str_path local_path @ '', already downloaded'')
              (case output_path of None \<Rightarrow> w | Some d \<Rightarrow> mkdir_parents d w))"
  using assms
  by (auto simp: download_def Let_def is_file_def mkdir_parents_def split: option.splits)

text \<open>
  C3. When a file is already at the destination and has as many bytes as the response
  announces, \<open>download\<close> returns that path; it makes no \<open>read\<close> on the response and the
  files are what they were.
\<close>

theorem download_skips_existing:
  assumes "urlopen net url as_browser = Inr response"
    and "local_path =
           joinpath (case output_path of None \<Rightarrow> cwd | Some d \<Rightarrow> d) (url_filename net url)"
    and "map_of (fs w) local_path = Some bytes"
    and "resp_length response = Some (length bytes)"
  shows "fst (download net cwd url checksum as_browser output_path w) = Inr local_path
       \<and> fs (snd (download net cwd url checksum as_browser output_path w)) = fs w
       \<and> reads (snd (download net cwd url checksum as_browser output_path w)) = reads w"
  unfolding download_skip [OF assms]
  by (simp add: print_def mkdir_parents_def split: option.splits)

theorem download_skips_existing_witness:
  "fst (download sample_site [''run''] sample_url None False (Some [''dl''])
          (blank_world\<lparr>fs := [([''dl'', ''JEFF40-Evaluations-TSL.zip''], ''abcd'')]\<rparr>))
     = Inr [''dl'', ''JEFF40-Evaluations-TSL.zip'']
   \<and> reads (snd (download sample_site [''run''] sample_url None False (Some [''dl''])
          (blank_world\<lparr>fs := [([''dl'', ''JEFF40-Evaluations-TSL.zip''], ''abcd'')]\<rparr>))) = 0"
  using download_skips_existing [where net = sample_site and url = sample_url
      and as_browser = False
      and response = "\<lparr>resp_length = Some 4, resp_body = ''data''\<rparr>"
      and local_path = "[''dl'', ''JEFF40-Evaluations-TSL.zip'']"
      and output_path = "Some [''dl'']" and cwd = "[''run'']"
      and w = "blank_world\<lparr>fs := [([''dl'', ''JEFF40-Evaluations-TSL.zip''], ''abcd'')]\<rparr>"
      and bytes = "''abcd''" and checksum = None]
  by (simp add: sample_site_def blank_world_def joinpath_def)

lemma copy_chunks_last:
  "take BLOCK_SIZE rest = [] \<Longrightarrow>
     copy_chunks net file_size p rest d w = (Inr (), w\<lparr>reads := Suc (reads w)\<rparr>)"
  by (subst copy_chunks.simps) (simp add: Let_def)

lemma copy_chunks_step:
  "take BLOCK_SIZE rest \<noteq> [] \<Longrightarrow> n \<noteq> 0 \<Longrightarrow>
     copy_chunks net (Some n) p rest d w =
       copy_chunks net (Some n) p (drop BLOCK_SIZE rest) (d + length (take BLOCK_SIZE rest))
         (print (status_text net (d + length (take BLOCK_SIZE rest)) n @
                 replicate (length (status_text net (d + length (take BLOCK_SIZE rest)) n))
                   (CHR 0x08))
            (append_file p (take BLOCK_SIZE rest) (w\<lparr>reads := Suc (reads w)\<rparr>)))"
  by (subst copy_chunks.simps) (simp add: Let_def)

lemma corrupt_first_call:
  "download sample_site [''run''] sample_url (Some ''13d22cd59f83368885ab2d86300b470a'') False
     (Some [''dl'']) blank_world
   = (Inl (OSError (checksum_message [''dl'', ''JEFF40-Evaluations-TSL.zip''])),
      \<lparr>fs = [([''dl'', ''JEFF40-Evaluations-TSL.zip''], ''data'')], dirs = {[''dl'']},
       stdout = [''Downloading dl/JEFF40-Evaluations-TSL.zip... '',
                 ''         4  [100.00%]'' @
                 replicate (length ''         4  [100.00%]'') (CHR 0x08), []],
       worker_stdout = [], reads = 2, calls = [], library = []\<rparr>)"
  by (simp add: download_def sample_site_def blank_world_def mkdir_parents_def is_file_def
      print_def write_file_def append_file_def BLOCK_SIZE_def str_path_def Let_def
      joinpath_def copy_chunks_last copy_chunks_step)

text \<open>
  C2. The site serves four bytes whose MD5 digest is not the checksum supplied. The first
  call writes them to disk and raises the checksum error. The second, identical call
  finds a file of the announced length, returns its path, reads nothing from the network
  and computes no digest: the file with the wrong digest is accepted.
\<close>

theorem download_retry_accepts_corrupt_file:
  "fst (download sample_site [''run''] sample_url (Some ''13d22cd59f83368885ab2d86300b470a'')
          False (Some [''dl'']) blank_world)
     = Inl (OSError (checksum_message [''dl'', ''JEFF40-Evaluations-TSL.zip'']))
   \<and> fst (download sample_site [''run''] sample_url (Some ''13d22cd59f83368885ab2d86300b470a'')
          False (Some [''dl'']) corrupt_world)
     = Inr [''dl'', ''JEFF40-Evaluations-TSL.zip'']
   \<and> reads (snd (download sample_site [''run''] sample_url
          (Some ''13d22cd59f83368885ab2d86300b470a'') False (Some [''dl'']) corrupt_world))
     = reads corrupt_world
   \<and> map_of (fs (snd (download sample_site [''run''] sample_url
          (Some ''13d22cd59f83368885ab2d86300b470a'') False (Some [''dl'']) corrupt_world)))
        [''dl'', ''JEFF40-Evaluations-TSL.zip''] = Some ''data''
   \<and> md5_hexdigest sample_site ''data'' \<noteq> ''13d22cd59f83368885ab2d86300b470a''"
  unfolding corrupt_world_def corrupt_first_call
  by (simp add: download_def sample_site_def mkdir_parents_def is_file_def print_def Let_def
      joinpath_def)

section \<open>Extraction\<close>

text \<open>
  C6. For a path whose suffix is neither \<open>.zip\<close> nor one of the seven suffixes of the tar
  branch, \<open>extract\<close> raises the \<open>ValueError\<close> that names the path, and the files are what
  they were: nothing is extracted and the archive is not deleted. The extraction
  directory has been created before the suffix is looked at.
\<close>

theorem extract_unsupported_suffix:
  assumes "path_suffix p \<noteq> ''.zip''"
    and "path_suffix p \<notin> set [''.gz'', ''.bz2'', ''.xz'', ''.lzma'', ''.zst'', ''.tgz'', ''.tar'']"
  shows "extract_archive ar has_filter cwd p extraction_dir del_compressed_file verbose w =
           (Inl (unsupported p),
            mkdir_parents (case extraction_dir of None \<Rightarrow> cwd | Some d \<Rightarrow> d) w)
         \<and> fs (snd (extract_archive ar has_filter cwd p extraction_dir del_compressed_file verbose w))
             = fs w"
  using assms by (simp add: extract_archive_def Let_def mkdir_parents_def)

theorem extract_unsupported_suffix_witness:
  "path_suffix [''dl'', ''archive.rar''] = ''.rar''
   \<and> fst (extract_archive sample_archivers True [''run''] [''dl'', ''archive.rar''] (Some [''endf'']) True True
            (blank_world\<lparr>fs := [([''dl'', ''archive.rar''], ''Rar!'')]\<rparr>))
       = Inl (ValueError
                ''File type not currently supported by extraction function dl/archive.rar'')
   \<and> fs (snd (extract_archive sample_archivers True [''run''] [''dl'', ''archive.rar''] (Some [''endf'']) True
                 True (blank_world\<lparr>fs := [([''dl'', ''archive.rar''], ''Rar!'')]\<rparr>)))
       = [([''dl'', ''archive.rar''], ''Rar!'')]"
proof -
  have s: "path_suffix [''dl'', ''archive.rar''] = ''.rar''"
    by (simp add: path_suffix_def path_name_def)
  show ?thesis
    using extract_unsupported_suffix [where p = "[''dl'', ''archive.rar'']" and ar = sample_archivers
        and has_filter = True and cwd = "[''run'']" and extraction_dir = "Some [''endf'']"
        and del_compressed_file = True and verbose = True
        and w = "blank_world\<lparr>fs := [([''dl'', ''archive.rar''], ''Rar!'')]\<rparr>"]
    by (simp add: s unsupported_def str_path_def blank_world_def mkdir_parents_def)
qed

section \<open>The scoped temporary file\<close>







section \<open>The ordering key\<close>

text \<open>
  C4, as amended. A name that starts with \<open>c_\<close> sorts after a name that does not, when
  \<open>zam\<close> accepts the stem of the second name and gives an atomic number below the
  sentinel 1000.
\<close>

theorem sort_key_thermal_last:
  assumes "startswith (path_name p) ''c_''" and "\<not> startswith (path_name q) ''c_''"
    and "zm (path_stem q) = Inr (Z, A, m)" and "Z < 1000"
  shows "sorts_before zm q p"
  using assms by (simp add: sorts_before_def sort_key_def)

theorem sort_key_thermal_last_witness:
  "startswith (path_name [''c_H_in_H2O.h5'']) ''c_'' \<and> \<not> startswith (path_name [''H1.h5'']) ''c_''
   \<and> gnds_zam (path_stem [''H1.h5'']) = Inr (1, 1, 0) \<and> (1::nat) < 1000
   \<and> sorts_before gnds_zam [''H1.h5''] [''c_H_in_H2O.h5'']"
proof -
  have a: "startswith (path_name [''c_H_in_H2O.h5'']) ''c_''" by (simp add: path_name_def)
  have b: "\<not> startswith (path_name [''H1.h5'']) ''c_''" by (simp add: path_name_def)
  have c: "gnds_zam (path_stem [''H1.h5'']) = Inr (1, 1, 0)"
    by (simp add: path_stem_def path_name_def gnds_zam_def is_symbol_start_def is_lower_def
        is_digit_def int_of_digits_def ATOMIC_NUMBER_def)
  have d: "(1::nat) < 1000" by simp
  from sort_key_thermal_last [of "[''c_H_in_H2O.h5'']" "[''H1.h5'']" gnds_zam 1 1 0, OF a b c d]
    a b c d
  show ?thesis by blast
qed

text \<open>
  C4, as stated, at its own example: \<open>n_1-H-001g\<close> does not start with \<open>c_\<close>, so its key
  is \<open>zam\<close> of the name, and the library's \<open>zam\<close> raises \<open>ValueError\<close> on it. No key is
  computed, and the name is not ordered before \<open>c_H_in_H2O\<close>.
\<close>

theorem sort_key_example_counterexample:
  "\<not> sorts_before gnds_zam [''n_1-H-001g''] [''c_H_in_H2O'']"
  by (simp add: sorts_before_def sort_key_def path_name_def path_stem_def gnds_zam_def
      is_symbol_start_def is_lower_def is_digit_def)

section \<open>The conversion workers\<close>

lemma probe_flag_simps:
  "probe_flag (Inr u) = Inr False"
  "probe_flag (Inl (UserWarning m)) = Inr (contains m ''divide_incoherent_elastic'')"
  "(\<And>m. e \<noteq> UserWarning m) \<Longrightarrow> probe_flag (Inl e) = Inl e"
  by (auto simp: probe_flag_def split: exn.splits)

lemma process_thermal_calls:
  "probe_flag (thermal_from_endf omc pt) = Inr flag \<Longrightarrow>
   calls (snd (process_thermal omc pn pt out lv w)) =
     calls w @ [ThermalFromEndf pt, ThermalFromNjoy pn pt flag] @
     (case thermal_from_njoy omc pn pt flag of
        Inl e \<Rightarrow> []
      | Inr d \<Rightarrow> [ExportToHdf5 (out @ [data_name d @ ''.h5'']) lv])"
  by (simp add: process_thermal_def Let_def called_def print_def export_def write_file_def
      split: sum.splits)

lemma process_thermal_probe_raises:
  "probe_flag (thermal_from_endf omc pt) = Inl e \<Longrightarrow>
   process_thermal omc pn pt out lv w =
     (Inl e, called (ThermalFromEndf pt) (print (''Converting: '' @ str_path pt) w))"
  by (simp add: process_thermal_def Let_def)

text \<open>
  C5, as amended. \<open>process_thermal\<close> calls the probe first, once. When the probe returns,
  the real conversion is called next with the flag \<open>False\<close>; when the probe signals a
  \<open>UserWarning\<close>, it is called with the flag that says whether the text of the warning
  contains \<open>divide_incoherent_elastic\<close>. When the probe raises any other exception, that
  exception leaves \<open>process_thermal\<close> and the real conversion is not called.
\<close>

theorem process_thermal_flag:
  "(thermal_from_endf omc pt = Inr () \<longrightarrow>
      calls (snd (process_thermal omc pn pt out lv w)) =
        calls w @ [ThermalFromEndf pt, ThermalFromNjoy pn pt False] @
        (case thermal_from_njoy omc pn pt False of
           Inl e \<Rightarrow> []
         | Inr d \<Rightarrow> [ExportToHdf5 (out @ [data_name d @ ''.h5'']) lv]))
   \<and> (\<forall>msg. thermal_from_endf omc pt = Inl (UserWarning msg) \<longrightarrow>
      calls (snd (process_thermal omc pn pt out lv w)) =
        calls w @ [ThermalFromEndf pt,
                   ThermalFromNjoy pn pt (contains msg ''divide_incoherent_elastic'')] @
        (case thermal_from_njoy omc pn pt (contains msg ''divide_incoherent_elastic'') of
           Inl e \<Rightarrow> []
         | Inr d \<Rightarrow> [ExportToHdf5 (out @ [data_name d @ ''.h5'']) lv]))
   \<and> (\<forall>e. thermal_from_endf omc pt = Inl e \<longrightarrow> (\<forall>msg. e \<noteq> UserWarning msg) \<longrightarrow>
      fst (process_thermal omc pn pt out lv w) = Inl e
      \<and> calls (snd (process_thermal omc pn pt out lv w)) = calls w @ [ThermalFromEndf pt])"
proof (intro conjI allI impI)
  assume "thermal_from_endf omc pt = Inr ()"
  then show "calls (snd (process_thermal omc pn pt out lv w)) =
        calls w @ [ThermalFromEndf pt, ThermalFromNjoy pn pt False] @
        (case thermal_from_njoy omc pn pt False of
           Inl e \<Rightarrow> []
         | Inr d \<Rightarrow> [ExportToHdf5 (out @ [data_name d @ ''.h5'']) lv])"
    by (intro process_thermal_calls) (simp add: probe_flag_simps)
next
  fix msg assume "thermal_from_endf omc pt = Inl (UserWarning msg)"
  then show "calls (snd (process_thermal omc pn pt out lv w)) =
        calls w @ [ThermalFromEndf pt,
                   ThermalFromNjoy pn pt (contains msg ''divide_incoherent_elastic'')] @
        (case thermal_from_njoy omc pn pt (contains msg ''divide_incoherent_elastic'') of
           Inl e \<Rightarrow> []
         | Inr d \<Rightarrow> [ExportToHdf5 (out @ [data_name d @ ''.h5'']) lv])"
    by (intro process_thermal_calls) (simp add: probe_flag_simps)
next
  fix e assume e: "thermal_from_endf omc pt = Inl e" "\<forall>msg. e \<noteq> UserWarning msg"
  then have "probe_flag (thermal_from_endf omc pt) = Inl e" by (simp add: probe_flag_simps)
  from process_thermal_probe_raises [OF this]
  show "fst (process_thermal omc pn pt out lv w) = Inl e"
    and "calls (snd (process_thermal omc pn pt out lv w)) = calls w @ [ThermalFromEndf pt]"
    by (simp_all add: called_def print_def)
qed

theorem process_thermal_flag_witness:
  "thermal_from_endf sample_openmc [''t'', ''tsl_Be_Be.jeff''] = Inr ()
   \<and> thermal_from_endf sample_openmc [''t'', ''tsl_H_H2O.jeff'']
       = Inl (UserWarning ''set divide_incoherent_elastic=True'')
   \<and> thermal_from_endf sample_openmc [''t'', ''tsl_O_D20.jeff'']
       = Inl (FileNotFoundError ''t/tsl_O_D20.jeff'')
   \<and> calls (snd (process_thermal sample_openmc [''n'', ''n_4-Be-009g.jeff'']
                   [''t'', ''tsl_Be_Be.jeff''] [''out''] ''earliest'' blank_world))
       = [ThermalFromEndf [''t'', ''tsl_Be_Be.jeff''],
          ThermalFromNjoy [''n'', ''n_4-Be-009g.jeff''] [''t'', ''tsl_Be_Be.jeff''] False]
   \<and> calls (snd (process_thermal sample_openmc [''n'', ''n_1-H-001g.jeff'']
                   [''t'', ''tsl_H_H2O.jeff''] [''out''] ''earliest'' blank_world))
       = [ThermalFromEndf [''t'', ''tsl_H_H2O.jeff''],
          ThermalFromNjoy [''n'', ''n_1-H-001g.jeff''] [''t'', ''tsl_H_H2O.jeff''] True,
          ExportToHdf5 [''out'', ''c_H_in_H2O.h5''] ''earliest'']
   \<and> calls (snd (process_thermal sample_openmc [''n'', ''n_8-O-016g.jeff'']
                   [''t'', ''tsl_O_D20.jeff''] [''out''] ''earliest'' blank_world))
       = [ThermalFromEndf [''t'', ''tsl_O_D20.jeff'']]"
proof -
  have a: "thermal_from_endf sample_openmc [''t'', ''tsl_Be_Be.jeff''] = Inr ()"
    by (simp add: sample_openmc_def path_name_def)
  have b: "thermal_from_endf sample_openmc [''t'', ''tsl_H_H2O.jeff'']
             = Inl (UserWarning ''set divide_incoherent_elastic=True'')"
    by (simp add: sample_openmc_def path_name_def)
  have c: "thermal_from_endf sample_openmc [''t'', ''tsl_O_D20.jeff'']
             = Inl (FileNotFoundError ''t/tsl_O_D20.jeff'')"
    by (simp add: sample_openmc_def path_name_def str_path_def)
  have d: "contains ''set divide_incoherent_elastic=True'' ''divide_incoherent_elastic''"
    by simp
  have n1: "thermal_from_njoy sample_openmc [''n'', ''n_4-Be-009g.jeff'']
              [''t'', ''tsl_Be_Be.jeff''] False = Inl (Error ''CalledProcessError'' ''njoy failed'')"
    by (simp add: sample_openmc_def path_name_def)
  have n2: "thermal_from_njoy sample_openmc [''n'', ''n_1-H-001g.jeff'']
              [''t'', ''tsl_H_H2O.jeff''] True = Inr (Data ''c_H_in_H2O'' ''h2o'')"
    by (simp add: sample_openmc_def path_name_def)
  show ?thesis
    using process_thermal_flag [of sample_openmc "[''t'', ''tsl_Be_Be.jeff'']"
        "[''n'', ''n_4-Be-009g.jeff'']" "[''out'']" "''earliest''" blank_world]
      process_thermal_flag [of sample_openmc "[''t'', ''tsl_H_H2O.jeff'']"
        "[''n'', ''n_1-H-001g.jeff'']" "[''out'']" "''earliest''" blank_world]
      process_thermal_flag [of sample_openmc "[''t'', ''tsl_O_D20.jeff'']"
        "[''n'', ''n_8-O-016g.jeff'']" "[''out'']" "''earliest''" blank_world]
      a b c d n1 n2
    by (simp add: blank_world_def)
qed

text \<open>
  C5, as stated, fails when the probe raises something other than a \<open>UserWarning\<close>: for
  a thermal file that is not there, \<open>from_endf\<close> raises \<open>FileNotFoundError\<close>, which leaves
  \<open>process_thermal\<close>; the probe is the only call made and the real conversion is not
  invoked with any flag.
\<close>

theorem process_thermal_flag_counterexample:
  "fst (process_thermal sample_openmc [''endf'', ''neutron'', ''n_8-O-016g.jeff'']
          [''endf'', ''thermal'', ''tsl_O_D20.jeff''] [''out'', ''thermal''] ''earliest''
          blank_world)
     = Inl (FileNotFoundError ''endf/thermal/tsl_O_D20.jeff'')
   \<and> calls (snd (process_thermal sample_openmc [''endf'', ''neutron'', ''n_8-O-016g.jeff'']
          [''endf'', ''thermal'', ''tsl_O_D20.jeff''] [''out'', ''thermal''] ''earliest''
          blank_world))
     = [ThermalFromEndf [''endf'', ''thermal'', ''tsl_O_D20.jeff'']]"
  by (simp add: process_thermal_def sample_openmc_def blank_world_def probe_flag_def Let_def
      called_def print_def path_name_def str_path_def)

lemma process_neutron_export_raises:
  assumes "neutron_from_njoy omc p temps = Inr d" and "export_to_hdf5 omc d lv = Inl e"
  shows "fst (process_neutron omc p out lv temps w) = Inl e"
    and "stdout (snd (process_neutron omc p out lv temps w)) =
           stdout w @ [''Converting: '' @ str_path p,
                       ''Writing '' @ str_path (out @ [data_name d @ ''.h5'']) @ '' ...'']"
  using assms by (simp_all add: process_neutron_def export_def Let_def called_def print_def)

lemma process_thermal_export_raises:
  assumes "probe_flag (thermal_from_endf omc pt) = Inr flag"
    and "thermal_from_njoy omc pn pt flag = Inr d" and "export_to_hdf5 omc d lv = Inl e"
  shows "fst (process_thermal omc pn pt out lv w) = Inl e"
    and "stdout (snd (process_thermal omc pn pt out lv w)) =
           stdout w @ [''Converting: '' @ str_path pt,
                       ''Writing '' @ str_path (out @ [data_name d @ ''.h5'']) @ '' ...'']"
  using assms by (simp_all add: process_thermal_def export_def Let_def called_def print_def)

text \<open>
  C7, as amended. When the converter call \<open>from_njoy\<close> of \<open>process_neutron\<close> raises, the
  function prints the path and the error after the \<open>Converting\<close> line, and the same
  exception leaves the function. When the converter call \<open>from_njoy\<close> of
  \<open>process_thermal\<close> raises (the probe having set the flag), the function prints both
  paths and the error, and the same exception leaves it. An exception of any other step
  leaves the function as well, and nothing is printed for it: when the export raises,
  in either function, the output ends with the \<open>Writing\<close> line, and when the probe of
  \<open>process_thermal\<close> raises something other than a \<open>UserWarning\<close>, the output ends with
  the \<open>Converting\<close> line.
\<close>

theorem workers_log_and_reraise:
  "(neutron_from_njoy omc p temps = Inl e \<longrightarrow>
      fst (process_neutron omc p out lv temps w) = Inl e
      \<and> stdout (snd (process_neutron omc p out lv temps w)) =
          stdout w @ [''Converting: '' @ str_path p, str_path p @ '' '' @ str_exn e])
   \<and> (probe_flag (thermal_from_endf omc pt) = Inr flag \<longrightarrow>
      thermal_from_njoy omc pn pt flag = Inl e \<longrightarrow>
      fst (process_thermal omc pn pt out lv w) = Inl e
      \<and> stdout (snd (process_thermal omc pn pt out lv w)) =
          stdout w @ [''Converting: '' @ str_path pt,
                      str_path pn @ '' '' @ str_path pt @ '' '' @ str_exn e])
   \<and> (neutron_from_njoy omc p temps = Inr d \<longrightarrow> export_to_hdf5 omc d lv = Inl e \<longrightarrow>
      fst (process_neutron omc p out lv temps w) = Inl e
      \<and> stdout (snd (process_neutron omc p out lv temps w)) =
          stdout w @ [''Converting: '' @ str_path p,
                      ''Writing '' @ str_path (out @ [data_name d @ ''.h5'']) @ '' ...''])
   \<and> (thermal_from_endf omc pt = Inl e \<longrightarrow> (\<forall>msg. e \<noteq> UserWarning msg) \<longrightarrow>
      fst (process_thermal omc pn pt out lv w) = Inl e
      \<and> stdout (snd (process_thermal omc pn pt out lv w)) =
          stdout w @ [''Converting: '' @ str_path pt])
   \<and> (probe_flag (thermal_from_endf omc pt) = Inr flag \<longrightarrow>
      thermal_from_njoy omc pn pt flag = Inr d \<longrightarrow> export_to_hdf5 omc d lv = Inl e \<longrightarrow>
      fst (process_thermal omc pn pt out lv w) = Inl e
      \<and> stdout (snd (process_thermal omc pn pt out lv w)) =
          stdout w @ [''Converting: '' @ str_path pt,
                      ''Writing '' @ str_path (out @ [data_name d @ ''.h5'']) @ '' ...''])"
proof -
  have 1: "fst (process_neutron omc p out lv temps w) = Inl e
      \<and> stdout (snd (process_neutron omc p out lv temps w)) =
          stdout w @ [''Converting: '' @ str_path p, str_path p @ '' '' @ str_exn e]"
    if "neutron_from_njoy omc p temps = Inl e"
    using that by (simp add: process_neutron_def Let_def called_def print_def)
  have 2: "fst (process_thermal omc pn pt out lv w) = Inl e
      \<and> stdout (snd (process_thermal omc pn pt out lv w)) =
          stdout w @ [''Converting: '' @ str_path pt,
                      str_path pn @ '' '' @ str_path pt @ '' '' @ str_exn e]"
    if "probe_flag (thermal_from_endf omc pt) = Inr flag"
      and "thermal_from_njoy omc pn pt flag = Inl e"
    using that by (simp add: process_thermal_def Let_def called_def print_def)
  have 3: "fst (process_neutron omc p out lv temps w) = Inl e
      \<and> stdout (snd (process_neutron omc p out lv temps w)) =
          stdout w @ [''Converting: '' @ str_path p,
                      ''Writing '' @ str_path (out @ [data_name d @ ''.h5'']) @ '' ...'']"
    if "neutron_from_njoy omc p temps = Inr d" and "export_to_hdf5 omc d lv = Inl e"
    using process_neutron_export_raises [OF that] by simp
  have 4: "fst (process_thermal omc pn pt out lv w) = Inl e
      \<and> stdout (snd (process_thermal omc pn pt out lv w)) =
          stdout w @ [''Converting: '' @ str_path pt]"
    if a: "thermal_from_endf omc pt = Inl e" "\<forall>msg. e \<noteq> UserWarning msg"
  proof -
    from a have "probe_flag (thermal_from_endf omc pt) = Inl e" by (simp add: probe_flag_simps)
    from process_thermal_probe_raises [OF this] show ?thesis
      by (simp add: called_def print_def)
  qed
  have 5: "fst (process_thermal omc pn pt out lv w) = Inl e
      \<and> stdout (snd (process_thermal omc pn pt out lv w)) =
          stdout w @ [''Converting: '' @ str_path pt,
                      ''Writing '' @ str_path (out @ [data_name d @ ''.h5'']) @ '' ...'']"
    if "probe_flag (thermal_from_endf omc pt) = Inr flag"
      and "thermal_from_njoy omc pn pt flag = Inr d" and "export_to_hdf5 omc d lv = Inl e"
    using process_thermal_export_raises [OF that] by simp
  show ?thesis using 1 2 3 4 5 by blast
qed

theorem workers_log_and_reraise_witness:
  "neutron_from_njoy sample_openmc [''n'', ''n_0-n-001g.jeff''] (Some [293.6])
     = Inl (Error ''CalledProcessError'' ''njoy failed'')
   \<and> fst (process_neutron sample_openmc [''n'', ''n_0-n-001g.jeff''] [''out''] ''earliest''
            (Some [293.6]) blank_world) = Inl (Error ''CalledProcessError'' ''njoy failed'')
   \<and> stdout (snd (process_neutron sample_openmc [''n'', ''n_0-n-001g.jeff''] [''out'']
                    ''earliest'' (Some [293.6]) blank_world))
       = [''Converting: n/n_0-n-001g.jeff'', ''n/n_0-n-001g.jeff njoy failed'']
   \<and> probe_flag (thermal_from_endf sample_openmc [''t'', ''tsl_Be_Be.jeff'']) = Inr False
   \<and> thermal_from_njoy sample_openmc [''n'', ''n_4-Be-009g.jeff''] [''t'', ''tsl_Be_Be.jeff'']
       False = Inl (Error ''CalledProcessError'' ''njoy failed'')
   \<and> fst (process_thermal sample_openmc [''n'', ''n_4-Be-009g.jeff'']
            [''t'', ''tsl_Be_Be.jeff''] [''out''] ''earliest'' blank_world)
       = Inl (Error ''CalledProcessError'' ''njoy failed'')
   \<and> stdout (snd (process_thermal sample_openmc [''n'', ''n_4-Be-009g.jeff'']
                    [''t'', ''tsl_Be_Be.jeff''] [''out''] ''earliest'' blank_world))
       = [''Converting: t/tsl_Be_Be.jeff'',
          ''n/n_4-Be-009g.jeff t/tsl_Be_Be.jeff njoy failed'']
   \<and> neutron_from_njoy full_disk_openmc [''n'', ''n_1-H-001g.jeff''] (Some [293.6])
       = Inr (Data ''H1'' ''h1'')
   \<and> export_to_hdf5 full_disk_openmc (Data ''H1'' ''h1'') ''earliest''
       = Inl (OSError ''No space left on device'')
   \<and> fst (process_neutron full_disk_openmc [''n'', ''n_1-H-001g.jeff''] [''out''] ''earliest''
            (Some [293.6]) blank_world) = Inl (OSError ''No space left on device'')
   \<and> stdout (snd (process_neutron full_disk_openmc [''n'', ''n_1-H-001g.jeff''] [''out'']
                    ''earliest'' (Some [293.6]) blank_world))
       = [''Converting: n/n_1-H-001g.jeff'', ''Writing out/H1.h5 ...'']
   \<and> thermal_from_endf sample_openmc [''t'', ''tsl_O_D20.jeff'']
       = Inl (FileNotFoundError ''t/tsl_O_D20.jeff'')
   \<and> fst (process_thermal sample_openmc [''n'', ''n_8-O-016g.jeff'']
            [''t'', ''tsl_O_D20.jeff''] [''out''] ''earliest'' blank_world)
       = Inl (FileNotFoundError ''t/tsl_O_D20.jeff'')
   \<and> stdout (snd (process_thermal sample_openmc [''n'', ''n_8-O-016g.jeff'']
                    [''t'', ''tsl_O_D20.jeff''] [''out''] ''earliest'' blank_world))
       = [''Converting: t/tsl_O_D20.jeff'']
   \<and> probe_flag (thermal_from_endf full_disk_openmc [''t'', ''tsl_H_H2O.jeff'']) = Inr True
   \<and> thermal_from_njoy full_disk_openmc [''n'', ''n_1-H-001g.jeff'']
       [''t'', ''tsl_H_H2O.jeff''] True = Inr (Data ''c_H_in_H2O'' ''h2o'')
   \<and> fst (process_thermal full_disk_openmc [''n'', ''n_1-H-001g.jeff'']
            [''t'', ''tsl_H_H2O.jeff''] [''out''] ''earliest'' blank_world)
       = Inl (OSError ''No space left on device'')
   \<and> stdout (snd (process_thermal full_disk_openmc [''n'', ''n_1-H-001g.jeff'']
                    [''t'', ''tsl_H_H2O.jeff''] [''out''] ''earliest'' blank_world))
       = [''Converting: t/tsl_H_H2O.jeff'', ''Writing out/c_H_in_H2O.h5 ...'']"
proof -
  let ?njoy = "Error ''CalledProcessError'' ''njoy failed''"
  let ?full = "OSError ''No space left on device''"
  have a: "neutron_from_njoy sample_openmc [''n'', ''n_0-n-001g.jeff''] (Some [293.6])
             = Inl ?njoy"
    by (simp add: sample_openmc_def path_name_def)
  have b: "probe_flag (thermal_from_endf sample_openmc [''t'', ''tsl_Be_Be.jeff'']) = Inr False"
    by (simp add: sample_openmc_def path_name_def probe_flag_def)
  have c: "thermal_from_njoy sample_openmc [''n'', ''n_4-Be-009g.jeff'']
             [''t'', ''tsl_Be_Be.jeff''] False = Inl ?njoy"
    by (simp add: sample_openmc_def path_name_def)
  have d: "neutron_from_njoy full_disk_openmc [''n'', ''n_1-H-001g.jeff''] (Some [293.6])
             = Inr (Data ''H1'' ''h1'')"
    by (simp add: full_disk_openmc_def sample_openmc_def path_name_def)
  have x: "export_to_hdf5 full_disk_openmc (Data ''H1'' ''h1'') ''earliest'' = Inl ?full"
    "export_to_hdf5 full_disk_openmc (Data ''c_H_in_H2O'' ''h2o'') ''earliest'' = Inl ?full"
    by (simp_all add: full_disk_openmc_def)
  have f: "thermal_from_endf sample_openmc [''t'', ''tsl_O_D20.jeff'']
             = Inl (FileNotFoundError ''t/tsl_O_D20.jeff'')"
    by (simp add: sample_openmc_def path_name_def str_path_def)
  have g: "probe_flag (thermal_from_endf full_disk_openmc [''t'', ''tsl_H_H2O.jeff''])
             = Inr True"
    by (simp add: full_disk_openmc_def sample_openmc_def path_name_def probe_flag_def)
  have h: "thermal_from_njoy full_disk_openmc [''n'', ''n_1-H-001g.jeff'']
             [''t'', ''tsl_H_H2O.jeff''] True = Inr (Data ''c_H_in_H2O'' ''h2o'')"
    by (simp add: full_disk_openmc_def sample_openmc_def path_name_def)
  note t1 = workers_log_and_reraise [where omc = sample_openmc
      and p = "[''n'', ''n_0-n-001g.jeff'']" and temps = "Some [293.6]" and e = ?njoy
      and pt = "[''t'', ''tsl_Be_Be.jeff'']" and pn = "[''n'', ''n_4-Be-009g.jeff'']"
      and flag = False and out = "[''out'']" and lv = "''earliest''" and w = blank_world]
  note t2 = workers_log_and_reraise [where omc = full_disk_openmc
      and p = "[''n'', ''n_1-H-001g.jeff'']" and temps = "Some [293.6]" and e = ?full
      and d = "Data ''H1'' ''h1''"
      and out = "[''out'']" and lv = "''earliest''" and w = blank_world]
  note t3 = workers_log_and_reraise [where omc = sample_openmc
      and pt = "[''t'', ''tsl_O_D20.jeff'']" and pn = "[''n'', ''n_8-O-016g.jeff'']"
      and e = "FileNotFoundError ''t/tsl_O_D20.jeff''"
      and out = "[''out'']" and lv = "''earliest''" and w = blank_world]
  note t4 = workers_log_and_reraise [where omc = full_disk_openmc
      and pt = "[''t'', ''tsl_H_H2O.jeff'']" and pn = "[''n'', ''n_1-H-001g.jeff'']"
      and flag = True and e = ?full and d = "Data ''c_H_in_H2O'' ''h2o''"
      and out = "[''out'']" and lv = "''earliest''" and w = blank_world]
  have s: "stdout blank_world = []" by (simp add: blank_world_def)
  have 1: "fst (process_neutron sample_openmc [''n'', ''n_0-n-001g.jeff''] [''out''] ''earliest''
            (Some [293.6]) blank_world) = Inl ?njoy"
    "stdout (snd (process_neutron sample_openmc [''n'', ''n_0-n-001g.jeff''] [''out'']
                    ''earliest'' (Some [293.6]) blank_world))
       = [''Converting: n/n_0-n-001g.jeff'', ''n/n_0-n-001g.jeff njoy failed'']"
    using t1 a s by (simp_all add: str_path_def)
  have 2: "fst (process_thermal sample_openmc [''n'', ''n_4-Be-009g.jeff'']
            [''t'', ''tsl_Be_Be.jeff''] [''out''] ''earliest'' blank_world) = Inl ?njoy"
    "stdout (snd (process_thermal sample_openmc [''n'', ''n_4-Be-009g.jeff'']
                    [''t'', ''tsl_Be_Be.jeff''] [''out''] ''earliest'' blank_world))
       = [''Converting: t/tsl_Be_Be.jeff'',
          ''n/n_4-Be-009g.jeff t/tsl_Be_Be.jeff njoy failed'']"
    using t1 b c s by (simp_all add: str_path_def)
  have 3: "fst (process_neutron full_disk_openmc [''n'', ''n_1-H-001g.jeff''] [''out'']
            ''earliest'' (Some [293.6]) blank_world) = Inl ?full"
    "stdout (snd (process_neutron full_disk_openmc [''n'', ''n_1-H-001g.jeff''] [''out'']
                    ''earliest'' (Some [293.6]) blank_world))
       = [''Converting: n/n_1-H-001g.jeff'', ''Writing out/H1.h5 ...'']"
    using t2 d x(1) s by (simp_all add: str_path_def)
  have 4: "fst (process_thermal sample_openmc [''n'', ''n_8-O-016g.jeff'']
            [''t'', ''tsl_O_D20.jeff''] [''out''] ''earliest'' blank_world)
       = Inl (FileNotFoundError ''t/tsl_O_D20.jeff'')"
    "stdout (snd (process_thermal sample_openmc [''n'', ''n_8-O-016g.jeff'']
                    [''t'', ''tsl_O_D20.jeff''] [''out''] ''earliest'' blank_world))
       = [''Converting: t/tsl_O_D20.jeff'']"
    using t3 f s by (simp_all add: str_path_def)
  have 5: "fst (process_thermal full_disk_openmc [''n'', ''n_1-H-001g.jeff'']
            [''t'', ''tsl_H_H2O.jeff''] [''out''] ''earliest'' blank_world) = Inl ?full"
    "stdout (snd (process_thermal full_disk_openmc [''n'', ''n_1-H-001g.jeff'']
                    [''t'', ''tsl_H_H2O.jeff''] [''out''] ''earliest'' blank_world))
       = [''Converting: t/tsl_H_H2O.jeff'', ''Writing out/c_H_in_H2O.h5 ...'']"
    using t4 g h x(2) s by (simp_all add: str_path_def)
  show ?thesis using a b c d x(1) f g h 1 2 3 4 5 by simp
qed

text \<open>
  C7, as stated, fails for an exception that is not raised by \<open>from_njoy\<close>. On a full
  disk the export of \<open>process_neutron\<close> raises \<open>OSError\<close>: the exception leaves the
  function, and the two lines printed are the \<open>Converting\<close> line and the \<open>Writing\<close> line,
  neither of which holds the error. For a thermal file that is not there the probe of
  \<open>process_thermal\<close> raises \<open>FileNotFoundError\<close>, and the \<open>Converting\<close> line is all that
  is printed.
\<close>

theorem workers_log_counterexample:
  "fst (process_neutron full_disk_openmc [''n'', ''n_1-H-001g.jeff''] [''out''] ''earliest''
          (Some [293.6]) blank_world) = Inl (OSError ''No space left on device'')
   \<and> stdout (snd (process_neutron full_disk_openmc [''n'', ''n_1-H-001g.jeff''] [''out'']
                    ''earliest'' (Some [293.6]) blank_world))
       = [''Converting: n/n_1-H-001g.jeff'', ''Writing out/H1.h5 ...'']
   \<and> fst (process_thermal sample_openmc [''n'', ''n_8-O-016g.jeff'']
            [''t'', ''tsl_O_D20.jeff''] [''out''] ''earliest'' blank_world)
       = Inl (FileNotFoundError ''t/tsl_O_D20.jeff'')
   \<and> stdout (snd (process_thermal sample_openmc [''n'', ''n_8-O-016g.jeff'']
                    [''t'', ''tsl_O_D20.jeff''] [''out''] ''earliest'' blank_world))
       = [''Converting: t/tsl_O_D20.jeff'']"
  by (simp add: process_neutron_def process_thermal_def export_def full_disk_openmc_def
      sample_openmc_def blank_world_def probe_flag_def Let_def called_def print_def
      path_name_def str_path_def)

section \<open>Sorting by the key\<close>

lemma py_lt_total:
  "sentinel_above k \<Longrightarrow> sentinel_above k' \<Longrightarrow> py_lt k k' = Inr True \<or> py_lt k k' = Inr False"
  by (cases k; cases k') auto

lemma py_lt_asym:
  "sentinel_above k \<Longrightarrow> sentinel_above k' \<Longrightarrow> py_lt k k' = Inr True \<Longrightarrow> py_lt k' k = Inr False"
  by (cases k; cases k') auto

lemma py_lt_irrefl: "sentinel_above k \<Longrightarrow> py_lt k k = Inr False"
  by (cases k) auto

lemma py_lt_negtrans:
  "sentinel_above x \<Longrightarrow> sentinel_above y \<Longrightarrow> sentinel_above z \<Longrightarrow>
   py_lt y x = Inr False \<Longrightarrow> py_lt z y = Inr False \<Longrightarrow> py_lt z x = Inr False"
  by (cases x; cases y; cases z) (auto split: if_splits)

lemma insort_py_sorted:
  assumes "sentinel_above (fst x)" and "\<forall>y \<in> set ys. sentinel_above (fst y)"
    and "sorted_wrt (\<lambda>a b. py_lt (fst b) (fst a) = Inr False) ys"
  shows "\<exists>zs. insort_py x ys = Inr zs \<and> mset zs = mset (x # ys)
              \<and> sorted_wrt (\<lambda>a b. py_lt (fst b) (fst a) = Inr False) zs"
  using assms
proof (induction ys)
  case Nil
  then show ?case by simp
next
  case (Cons y ys)
  from Cons.prems have gy: "sentinel_above (fst y)" by simp
  show ?case
  proof (cases "py_lt (fst y) (fst x) = Inr True")
    case True
    from Cons.IH Cons.prems obtain zs where zs: "insort_py x ys = Inr zs"
      "mset zs = mset (x # ys)" "sorted_wrt (\<lambda>a b. py_lt (fst b) (fst a) = Inr False) zs"
      by auto
    have xy: "py_lt (fst x) (fst y) = Inr False"
      using py_lt_asym [OF gy Cons.prems(1) True] .
    have "set zs = insert x (set ys)" using zs(2) by (metis mset_eq_setD list.simps(15))
    then have "\<forall>z \<in> set zs. py_lt (fst z) (fst y) = Inr False"
      using xy Cons.prems(3) by auto
    then show ?thesis using True zs by simp
  next
    case False
    then have f: "py_lt (fst y) (fst x) = Inr False"
      using py_lt_total [OF gy Cons.prems(1)] by blast
    have "\<forall>z \<in> set ys. py_lt (fst z) (fst x) = Inr False"
    proof
      fix z assume z: "z \<in> set ys"
      then have "py_lt (fst z) (fst y) = Inr False" using Cons.prems(3) by simp
      moreover have "sentinel_above (fst z)" using z Cons.prems(2) by simp
      ultimately show "py_lt (fst z) (fst x) = Inr False"
        using py_lt_negtrans [OF Cons.prems(1) gy _ f] by blast
    qed
    then show ?thesis using f Cons.prems(3) by simp
  qed
qed

lemma sort_py_sorted:
  assumes "\<forall>y \<in> set xs. sentinel_above (fst y)"
  shows "\<exists>zs. sort_py xs = Inr zs \<and> mset zs = mset xs
              \<and> sorted_wrt (\<lambda>a b. py_lt (fst b) (fst a) = Inr False) zs"
  using assms
proof (induction xs)
  case Nil
  show ?case by simp
next
  case (Cons x xs)
  then obtain ys where ys: "sort_py xs = Inr ys" "mset ys = mset xs"
    "sorted_wrt (\<lambda>a b. py_lt (fst b) (fst a) = Inr False) ys"
    by auto
  have "set ys = set xs" using ys(2) by (rule mset_eq_setD)
  then have "\<forall>y \<in> set ys. sentinel_above (fst y)" using Cons.prems by simp
  from insort_py_sorted [OF _ this ys(3), of x] Cons.prems
  obtain zs where "insort_py x ys = Inr zs" "mset zs = mset (x # ys)"
    "sorted_wrt (\<lambda>a b. py_lt (fst b) (fst a) = Inr False) zs"
    by auto
  then show ?case using ys by simp
qed

lemma keyed_Inr:
  "keyed f xs = Inr ks \<Longrightarrow> map snd ks = xs \<and> (\<forall>kx \<in> set ks. f (snd kx) = Inr (fst kx))"
  by (induction xs arbitrary: ks) (auto split: sum.splits)

lemma sort_key_sentinel:
  assumes "\<forall>s Z A m. zm s = Inr (Z, A, m) \<longrightarrow> Z < 1000" and "sort_key zm p = Inr k"
  shows "sentinel_above k"
proof (cases "startswith (path_name p) ''c_''")
  case True
  then show ?thesis using assms(2) by (auto simp: sort_key_def)
next
  case False
  then obtain Z A m where z: "zm (path_stem p) = Inr (Z, A, m)" and k: "k = ZamKey Z A m"
    using assms(2) by (auto simp: sort_key_def split: sum.splits)
  from assms(1) z have "Z < 1000" by blast
  then show ?thesis using k by simp
qed

lemma py_sorted_sorted:
  assumes bound: "\<forall>s Z A m. zm s = Inr (Z, A, m) \<longrightarrow> Z < 1000"
    and "py_sorted (sort_key zm) xs = Inr ys"
  shows "mset ys = mset xs \<and> key_sorted zm ys"
proof -
  from assms(2) obtain ks zs where ks: "keyed (sort_key zm) xs = Inr ks"
    and zs: "sort_py ks = Inr zs" and ys: "ys = map snd zs"
    by (auto simp: py_sorted_def split: sum.splits)
  from keyed_Inr [OF ks] have k1: "map snd ks = xs"
    and k2: "\<forall>kx \<in> set ks. sort_key zm (snd kx) = Inr (fst kx)" by auto
  have good: "\<forall>kx \<in> set ks. sentinel_above (fst kx)"
    using k2 sort_key_sentinel [OF bound] by blast
  from sort_py_sorted [OF good] zs have m: "mset zs = mset ks"
    and s: "sorted_wrt (\<lambda>a b. py_lt (fst b) (fst a) = Inr False) zs" by auto
  have sz: "set zs = set ks" using m by (rule mset_eq_setD)
  have 1: "mset ys = mset xs"
    using m k1 ys by (metis mset_map)
  have 2: "sorted_wrt (in_key_order zm) ys"
    unfolding ys sorted_wrt_map
    by (rule sorted_wrt_mono_rel [OF _ s]) (use k2 sz in \<open>auto simp: in_key_order_def\<close>)
  have 3: "list_all (\<lambda>p. in_key_order zm p p) ys"
    unfolding ys list_all_iff
    using k2 sz good by (auto simp: in_key_order_def py_lt_irrefl)
  show ?thesis using 1 2 3 by (simp add: key_sorted_def)
qed

section \<open>The pool stages\<close>

lemma distinct_files: "distinct (files w)"
  by (simp add: files_def distinct_clearjunk)

lemma library_register_all: "library (register_all ps w) = library w @ ps"
  by (induction ps arbitrary: w) (simp_all add: register_file_def)

lemma register_sorted_library:
  assumes bound: "\<forall>s Z A m. zam omc s = Inr (Z, A, m) \<longrightarrow> Z < 1000"
    and "register_sorted omc dir w = (Inr (), w')"
  shows "\<exists>ps. library w' = library w @ ps \<and> distinct ps \<and> key_sorted (zam omc) ps
              \<and> (\<forall>p \<in> set ps. butlast p = dir)"
proof -
  from assms(2) obtain ps where ps: "py_sorted (sort_key (zam omc)) (glob dir [] ''.h5'' w) = Inr ps"
    and w': "w' = register_all ps w"
    by (auto simp: register_sorted_def split: sum.splits)
  from py_sorted_sorted [OF bound ps] have m: "mset ps = mset (glob dir [] ''.h5'' w)"
    and k: "key_sorted (zam omc) ps" by auto
  have "distinct (glob dir [] ''.h5'' w)" by (simp add: glob_def distinct_files)
  then have d: "distinct ps" using m by (metis mset_eq_imp_distinct_iff)
  have "set ps = set (glob dir [] ''.h5'' w)" using m by (rule mset_eq_setD)
  then have b: "\<forall>p \<in> set ps. butlast p = dir" by (auto simp: glob_def)
  show ?thesis using w' k d b by (auto simp: library_register_all)
qed

lemma library_export: "library (snd (export omc d h5 lv w)) = library w"
  by (simp add: export_def Let_def called_def write_file_def split: sum.splits)

lemma library_process_neutron: "library (snd (process_neutron omc p out lv temps w)) = library w"
  by (simp add: process_neutron_def Let_def called_def print_def library_export split: sum.splits)

lemma library_process_thermal: "library (snd (process_thermal omc pn pt out lv w)) = library w"
  by (simp add: process_thermal_def Let_def called_def print_def library_export split: sum.splits)

lemma library_apply_async: "library (snd (apply_async job w)) = library (snd (job w))"
  by (simp add: apply_async_def split: prod.splits)

lemma snd_submit_Cons:
  "snd (submit (job # jobs) w) = snd (submit jobs (snd (apply_async job w)))"
  by (simp split: prod.splits)

lemma library_submit:
  "(\<And>job w'. job \<in> set jobs \<Longrightarrow> library (snd (job w')) = library w') \<Longrightarrow>
   library (snd (submit jobs w)) = library w"
proof (induction jobs arbitrary: w)
  case Nil
  show ?case by simp
next
  case (Cons job jobs)
  have "library (snd (submit jobs (snd (apply_async job w))))
          = library (snd (apply_async job w))"
    using Cons.IH Cons.prems by simp
  then show ?case
    using Cons.prems by (simp only: snd_submit_Cons library_apply_async list.set_intros)
qed

lemma wait_all_returns: "wait_all results = Inr ()"
proof (induction results)
  case Nil
  show ?case by simp
next
  case (Cons r rs)
  then show ?case by (cases r) simp
qed

lemma main_neutron_registers:
  "main_neutron omc a endf_files w =
     register_sorted omc (destination a @ [''neutron''])
       (snd (submit (map (\<lambda>filename. process_neutron omc filename (destination a @ [''neutron''])
                                        (libver a) (Some (temperatures a))) endf_files) w))"
  by (simp add: main_neutron_def Let_def wait_all_returns split: prod.splits)

lemma main_thermal_registers:
  "main_thermal omc a neutron_dir thermal_dir sab_files w =
     register_sorted omc (destination a @ [''thermal''])
       (snd (submit (map (\<lambda>(path_neutron, path_thermal).
                            process_thermal omc (neutron_dir @ [path_neutron])
                              (thermal_dir @ [path_thermal]) (destination a @ [''thermal''])
                              (libver a)) sab_files) w))"
  by (simp add: main_thermal_def Let_def wait_all_returns split: prod.splits)

lemma main_neutron_library:
  assumes bound: "\<forall>s Z A m. zam omc s = Inr (Z, A, m) \<longrightarrow> Z < 1000"
    and "main_neutron omc a endf_files w = (Inr (), w')"
  shows "\<exists>ps. library w' = library w @ ps \<and> distinct ps \<and> key_sorted (zam omc) ps
              \<and> (\<forall>p \<in> set ps. butlast p = destination a @ [''neutron''])"
proof -
  let ?w1 = "snd (submit (map (\<lambda>filename. process_neutron omc filename
               (destination a @ [''neutron'']) (libver a) (Some (temperatures a))) endf_files) w)"
  have l: "library ?w1 = library w"
    by (rule library_submit) (auto simp: library_process_neutron)
  from assms(2) have "register_sorted omc (destination a @ [''neutron'']) ?w1 = (Inr (), w')"
    by (simp add: main_neutron_registers)
  from register_sorted_library [OF bound this] l show ?thesis by simp
qed

lemma main_thermal_library:
  assumes bound: "\<forall>s Z A m. zam omc s = Inr (Z, A, m) \<longrightarrow> Z < 1000"
    and "main_thermal omc a neutron_dir thermal_dir sab_files w = (Inr (), w')"
  shows "\<exists>ps. library w' = library w @ ps \<and> distinct ps \<and> key_sorted (zam omc) ps
              \<and> (\<forall>p \<in> set ps. butlast p = destination a @ [''thermal''])"
proof -
  let ?w1 = "snd (submit (map (\<lambda>(path_neutron, path_thermal).
                            process_thermal omc (neutron_dir @ [path_neutron])
                              (thermal_dir @ [path_thermal]) (destination a @ [''thermal''])
                              (libver a)) sab_files) w)"
  have l: "library ?w1 = library w"
    by (rule library_submit) (auto simp: library_process_thermal)
  from assms(2) have "register_sorted omc (destination a @ [''thermal'']) ?w1 = (Inr (), w')"
    by (simp add: main_thermal_registers)
  from register_sorted_library [OF bound this] l show ?thesis by simp
qed

text \<open>
  C1 does not hold of the code. The worker re-raises what the converter raised, so the
  exception is the outcome of the job; but the orchestrator collects with \<open>wait\<close>, which
  returns for a failed job as for any other, and never asks for the outcome. On the
  sample tree the job for the plutonium file raises; the neutron stage over the three
  files nevertheless returns and registers the two files that were written. A thermal
  pair whose conversion raises leaves the thermal stage returning in the same way, and
  the whole run with both failures returns and writes \<open>cross_sections.xml\<close> over an
  index that lacks the failed evaluations.
\<close>

theorem pool_stage_swallows_job_failure:
  "fst (process_neutron sample_openmc
          [''run'', ''jeff-4.0-endf'', ''neutron'', ''n_94-Pu-239g.jeff'']
          [''jeff-4.0-hdf5'', ''neutron''] ''earliest'' (Some (temperatures sample_args))
          sample_world)
     = Inl (Error ''CalledProcessError'' ''njoy failed'')
   \<and> fst (main_neutron sample_openmc sample_args sample_neutron_files sample_world) = Inr ()
   \<and> library (snd (main_neutron sample_openmc sample_args sample_neutron_files sample_world))
       = [[''jeff-4.0-hdf5'', ''neutron'', ''H1.h5''],
          [''jeff-4.0-hdf5'', ''neutron'', ''U235.h5'']]
   \<and> fst (process_thermal sample_openmc
            [''run'', ''jeff-4.0-endf'', ''neutron'', ''n_4-Be-009g.jeff'']
            [''run'', ''jeff-4.0-endf'', ''thermal'', ''tsl_Be_Be.jeff'']
            [''jeff-4.0-hdf5'', ''thermal''] ''earliest'' sample_world)
       = Inl (Error ''CalledProcessError'' ''njoy failed'')
   \<and> fst (main_thermal sample_openmc sample_args [''run'', ''jeff-4.0-endf'', ''neutron'']
            [''run'', ''jeff-4.0-endf'', ''thermal'']
            [(''n_4-Be-009g.jeff'', ''tsl_Be_Be.jeff'')] sample_world) = Inr ()
   \<and> library (snd (main_thermal sample_openmc sample_args
                     [''run'', ''jeff-4.0-endf'', ''neutron'']
                     [''run'', ''jeff-4.0-endf'', ''thermal'']
                     [(''n_4-Be-009g.jeff'', ''tsl_Be_Be.jeff'')] sample_world)) = []
   \<and> fst (main_process sample_openmc [''run''] [(''n_4-Be-009g.jeff'', ''tsl_Be_Be.jeff'')]
            sample_args sample_world) = Inr ()
   \<and> library (snd (main_process sample_openmc [''run'']
                     [(''n_4-Be-009g.jeff'', ''tsl_Be_Be.jeff'')] sample_args sample_world))
       = [[''jeff-4.0-hdf5'', ''neutron'', ''H1.h5''],
          [''jeff-4.0-hdf5'', ''neutron'', ''U235.h5''],
          [''jeff-4.0-hdf5'', ''photon'', ''H.h5''],
          [''jeff-4.0-hdf5'', ''photon'', ''He.h5'']]
   \<and> is_file [''jeff-4.0-hdf5'', ''cross_sections.xml'']
        (snd (main_process sample_openmc [''run'']
                [(''n_4-Be-009g.jeff'', ''tsl_Be_Be.jeff'')] sample_args sample_world))"
proof -
  have 1: "fst (process_neutron sample_openmc
          [''run'', ''jeff-4.0-endf'', ''neutron'', ''n_94-Pu-239g.jeff'']
          [''jeff-4.0-hdf5'', ''neutron''] ''earliest'' (Some (temperatures sample_args))
          sample_world)
     = Inl (Error ''CalledProcessError'' ''njoy failed'')"
    by (simp add: process_neutron_def sample_openmc_def path_name_def Let_def)
  have 2: "fst (main_neutron sample_openmc sample_args sample_neutron_files sample_world)
             = Inr ()"
    by code_simp
  have 3: "library (snd (main_neutron sample_openmc sample_args sample_neutron_files
                           sample_world))
       = [[''jeff-4.0-hdf5'', ''neutron'', ''H1.h5''],
          [''jeff-4.0-hdf5'', ''neutron'', ''U235.h5'']]"
    by code_simp
  have 4: "fst (process_thermal sample_openmc
            [''run'', ''jeff-4.0-endf'', ''neutron'', ''n_4-Be-009g.jeff'']
            [''run'', ''jeff-4.0-endf'', ''thermal'', ''tsl_Be_Be.jeff'']
            [''jeff-4.0-hdf5'', ''thermal''] ''earliest'' sample_world)
       = Inl (Error ''CalledProcessError'' ''njoy failed'')"
    by (simp add: process_thermal_def sample_openmc_def path_name_def probe_flag_def Let_def)
  have 5: "fst (main_thermal sample_openmc sample_args [''run'', ''jeff-4.0-endf'', ''neutron'']
            [''run'', ''jeff-4.0-endf'', ''thermal'']
            [(''n_4-Be-009g.jeff'', ''tsl_Be_Be.jeff'')] sample_world) = Inr ()"
    by code_simp
  have 6: "library (snd (main_thermal sample_openmc sample_args
                     [''run'', ''jeff-4.0-endf'', ''neutron'']
                     [''run'', ''jeff-4.0-endf'', ''thermal'']
                     [(''n_4-Be-009g.jeff'', ''tsl_Be_Be.jeff'')] sample_world)) = []"
    by code_simp
  have 7: "fst (main_process sample_openmc [''run''] [(''n_4-Be-009g.jeff'', ''tsl_Be_Be.jeff'')]
            sample_args sample_world) = Inr ()"
    by code_simp
  have 8: "library (snd (main_process sample_openmc [''run'']
                     [(''n_4-Be-009g.jeff'', ''tsl_Be_Be.jeff'')] sample_args sample_world))
       = [[''jeff-4.0-hdf5'', ''neutron'', ''H1.h5''],
          [''jeff-4.0-hdf5'', ''neutron'', ''U235.h5''],
          [''jeff-4.0-hdf5'', ''photon'', ''H.h5''],
          [''jeff-4.0-hdf5'', ''photon'', ''He.h5'']]"
    by code_simp
  have 9: "is_file [''jeff-4.0-hdf5'', ''cross_sections.xml'']
        (snd (main_process sample_openmc [''run'']
                [(''n_4-Be-009g.jeff'', ''tsl_Be_Be.jeff'')] sample_args sample_world))"
    by code_simp
  show ?thesis by (intro conjI 1 2 3 4 5 6 7 8 9)
qed

section \<open>The photon stage\<close>

lemma photon_loop_library:
  "\<exists>ps. library (snd (photon_loop omc a pairs w)) = library w @ ps
        \<and> (\<forall>p \<in> set ps. butlast p = destination a @ [''photon''])"
proof (induction pairs arbitrary: w)
  case Nil
  show ?case by simp
next
  case (Cons pr pairs)
  obtain photo_path atom_path where pr: "pr = (photo_path, atom_path)" by (cases pr)
  show ?case
  proof (cases "photon_from_endf omc photo_path atom_path")
    case (Inl e)
    then show ?thesis by (simp add: pr Let_def called_def print_def)
  next
    case (Inr d)
    let ?h5 = "destination a @ [''photon'', data_name d @ ''.h5'']"
    let ?w2 = "called (PhotonFromEndf photo_path atom_path)
                 (print (''Converting: '' @ path_name photo_path @ '' '' @ path_name atom_path) w)"
    obtain r w3 where ex: "export omc d ?h5 (libver a) ?w2 = (r, w3)"
      by (cases "export omc d ?h5 (libver a) ?w2")
    have l3: "library w3 = library w"
      using library_export [of omc d ?h5 "libver a" ?w2] ex by (simp add: called_def print_def)
    show ?thesis
    proof (cases r)
      case (Inl e)
      then show ?thesis using Inr ex l3 by (simp add: pr Let_def)
    next
      case (Inr u)
      from Cons.IH [of "register_file ?h5 w3"] obtain ps where
        ps: "library (snd (photon_loop omc a pairs (register_file ?h5 w3)))
               = library (register_file ?h5 w3) @ ps"
          "\<forall>p \<in> set ps. butlast p = destination a @ [''photon'']" by blast
      have "library (snd (photon_loop omc a (pr # pairs) w)) = library w @ (?h5 # ps)"
        using \<open>photon_from_endf omc photo_path atom_path = Inr d\<close> ex Inr ps(1) l3
        by (simp add: pr Let_def register_file_def)
      moreover have "\<forall>p \<in> set (?h5 # ps). butlast p = destination a @ [''photon'']"
        using ps(2) by (simp add: butlast_append)
      ultimately show ?thesis by blast
    qed
  qed
qed








section \<open>The library index\<close>

lemma main_photon_library:
  "\<exists>ps. library (snd (main_photon omc a photo_files atom_files w)) = library w @ ps
        \<and> (\<forall>p \<in> set ps. butlast p = destination a @ [''photon''])"
  unfolding main_photon_def by (rule photon_loop_library)

lemma library_mkdirs:
  "library (foldl (\<lambda>w' particle. mkdir_parents (d @ [particle]) w') w ps) = library w"
  by (induction ps arbitrary: w) (simp_all add: mkdir_parents_def)

lemma atomic_numbers_below_sentinel: "\<forall>sz \<in> set ATOMIC_NUMBER. snd sz < 1000"
  by (simp add: ATOMIC_NUMBER_def)

lemma gnds_zam_below_sentinel: "gnds_zam s = Inr (Z, A, m) \<Longrightarrow> Z < 1000"
proof -
  assume z: "gnds_zam s = Inr (Z, A, m)"
  then obtain symbol where "map_of ATOMIC_NUMBER symbol = Some Z"
    by (auto simp: gnds_zam_def Let_def split: list.splits if_splits option.splits)
  then have "(symbol, Z) \<in> set ATOMIC_NUMBER" by (rule map_of_SomeD)
  then show "Z < 1000" using atomic_numbers_below_sentinel by fastforce
qed

text \<open>
  C8, as amended. In a run that completes, with atomic numbers below the sentinel, the
  index is the neutron files, then the thermal files, then the photon files. The neutron
  files and the thermal files are each registered once and each in the order of
  \<open>sort_key\<close>; they lie in different directories, so every thermal entry comes after
  every neutron entry. The photon files are registered as the pairs are converted: the
  whole index has no file twice when the photon outputs are distinct.
\<close>

theorem registration_order:
  assumes bound: "\<forall>s Z A m. zam omc s = Inr (Z, A, m) \<longrightarrow> Z < 1000"
    and run: "main_process omc cwd sab_files a w = (Inr (), w')"
  shows "\<exists>N T P. library w' = N @ T @ P
           \<and> distinct (N @ T) \<and> key_sorted (zam omc) N \<and> key_sorted (zam omc) T
           \<and> (\<forall>p \<in> set N. butlast p = destination a @ [''neutron''])
           \<and> (\<forall>p \<in> set T. butlast p = destination a @ [''thermal''])
           \<and> (\<forall>p \<in> set P. butlast p = destination a @ [''photon''])
           \<and> (distinct P \<longrightarrow> distinct (library w'))"
proof -
  let ?endf = "cwd @ [''jeff-'' @ release a @ ''-endf'']"
  let ?w0 = "(foldl (\<lambda>w' particle. mkdir_parents (destination a @ [particle]) w') w
                (particles a))\<lparr>library := []\<rparr>"
  let ?s1 = "if ''neutron'' \<in> set (particles a)
             then main_neutron omc a (rglob (?endf @ [''neutron'']) [] ''.jeff'' ?w0) ?w0
             else (Inr (), ?w0)"
  let ?st2 = "\<lambda>w1. if ''thermal'' \<in> set (particles a)
             then main_thermal omc a (?endf @ [''neutron'']) (?endf @ [''thermal'']) sab_files w1
             else (Inr (), w1)"
  let ?st3 = "\<lambda>w2. if ''photon'' \<in> set (particles a)
             then main_photon omc a (rglob (?endf @ [''photon'']) ''photoat'' ''.endf'' w2)
                    (rglob (?endf @ [''photon'']) ''atom'' ''.endf'' w2) w2
             else (Inr (), w2)"
  let ?fin = "\<lambda>w3. write_file (destination a @ [''cross_sections.xml''])
                      (library_xml omc (library w3)) w3"
  have unfold: "main_process omc cwd sab_files a w =
      (case ?s1 of
         (Inl e, w1) \<Rightarrow> (Inl e, w1)
       | (Inr u, w1) \<Rightarrow>
           (case ?st2 w1 of
              (Inl e, w2) \<Rightarrow> (Inl e, w2)
            | (Inr u, w2) \<Rightarrow>
                (case ?st3 w2 of
                   (Inl e, w3) \<Rightarrow> (Inl e, w3)
                 | (Inr u, w3) \<Rightarrow> (Inr (), ?fin w3))))"
    by (simp only: main_process_def Let_def)
  obtain r1 w1 where s1: "?s1 = (r1, w1)" by (cases ?s1)
  obtain r2 w2 where s2: "?st2 w1 = (r2, w2)" by (cases "?st2 w1")
  obtain r3 w3 where s3: "?st3 w2 = (r3, w3)" by (cases "?st3 w2")
  from run have c1: "(case (r1, w1) of
         (Inl e, w1) \<Rightarrow> (Inl e, w1)
       | (Inr u, w1) \<Rightarrow>
           (case ?st2 w1 of
              (Inl e, w2) \<Rightarrow> (Inl e, w2)
            | (Inr u, w2) \<Rightarrow>
                (case ?st3 w2 of
                   (Inl e, w3) \<Rightarrow> (Inl e, w3)
                 | (Inr u, w3) \<Rightarrow> (Inr (), ?fin w3)))) = (Inr (), w')"
    unfolding unfold s1 .
  have r1: "r1 = Inr ()" using c1 by (cases r1) simp_all
  from c1 r1 have "(case ?st2 w1 of
              (Inl e, w2) \<Rightarrow> (Inl e, w2)
            | (Inr u, w2) \<Rightarrow>
                (case ?st3 w2 of
                   (Inl e, w3) \<Rightarrow> (Inl e, w3)
                 | (Inr u, w3) \<Rightarrow> (Inr (), ?fin w3))) = (Inr (), w')"
    by simp
  then have c2: "(case (r2, w2) of
              (Inl e, w2) \<Rightarrow> (Inl e, w2)
            | (Inr u, w2) \<Rightarrow>
                (case ?st3 w2 of
                   (Inl e, w3) \<Rightarrow> (Inl e, w3)
                 | (Inr u, w3) \<Rightarrow> (Inr (), ?fin w3))) = (Inr (), w')"
    unfolding s2 .
  have r2: "r2 = Inr ()" using c2 by (cases r2) simp_all
  from c2 r2 have "(case ?st3 w2 of
                   (Inl e, w3) \<Rightarrow> (Inl e, w3)
                 | (Inr u, w3) \<Rightarrow> (Inr (), ?fin w3)) = (Inr (), w')"
    by simp
  then have c3: "(case (r3, w3) of
                   (Inl e, w3) \<Rightarrow> (Inl e, w3)
                 | (Inr u, w3) \<Rightarrow> (Inr (), ?fin w3)) = (Inr (), w')"
    unfolding s3 .
  have r3: "r3 = Inr ()" using c3 by (cases r3) simp_all
  have w': "library w' = library w3" using c3 r3 by (auto simp: write_file_def)
  note r = r1 r2 r3
  have l0: "library ?w0 = []" by simp
  have "\<exists>N. library w1 = N \<and> distinct N \<and> key_sorted (zam omc) N
            \<and> (\<forall>p \<in> set N. butlast p = destination a @ [''neutron''])"
  proof (cases "''neutron'' \<in> set (particles a)")
    case True
    with s1 r(1) have "main_neutron omc a (rglob (?endf @ [''neutron'']) [] ''.jeff'' ?w0) ?w0
                         = (Inr (), w1)" by simp
    from main_neutron_library [OF bound this] l0 show ?thesis by simp
  next
    case False
    with s1 have "w1 = ?w0" by simp
    then show ?thesis using l0 by (simp add: key_sorted_def)
  qed
  then obtain N where N: "library w1 = N" "distinct N" "key_sorted (zam omc) N"
    "\<forall>p \<in> set N. butlast p = destination a @ [''neutron'']" by blast
  have "\<exists>T. library w2 = library w1 @ T \<and> distinct T \<and> key_sorted (zam omc) T
            \<and> (\<forall>p \<in> set T. butlast p = destination a @ [''thermal''])"
  proof (cases "''thermal'' \<in> set (particles a)")
    case True
    with s2 r(2) have "main_thermal omc a (?endf @ [''neutron'']) (?endf @ [''thermal''])
                         sab_files w1 = (Inr (), w2)" by simp
    from main_thermal_library [OF bound this] show ?thesis by simp
  next
    case False
    with s2 have "w2 = w1" by simp
    then show ?thesis by (simp add: key_sorted_def)
  qed
  then obtain T where T: "library w2 = library w1 @ T" "distinct T" "key_sorted (zam omc) T"
    "\<forall>p \<in> set T. butlast p = destination a @ [''thermal'']" by blast
  have "\<exists>P. library w3 = library w2 @ P
            \<and> (\<forall>p \<in> set P. butlast p = destination a @ [''photon''])"
  proof (cases "''photon'' \<in> set (particles a)")
    case True
    with s3 have "w3 = snd (main_photon omc a
                    (rglob (?endf @ [''photon'']) ''photoat'' ''.endf'' w2)
                    (rglob (?endf @ [''photon'']) ''atom'' ''.endf'' w2) w2)" by simp
    then show ?thesis using main_photon_library by simp
  next
    case False
    with s3 have "w3 = w2" by simp
    then show ?thesis by simp
  qed
  then obtain P where P: "library w3 = library w2 @ P"
    "\<forall>p \<in> set P. butlast p = destination a @ [''photon'']" by blast
  have lib: "library w' = N @ T @ P" using w' N(1) T(1) P(1) by simp
  have NT: "set N \<inter> set T = {}" using N(4) T(4) by fastforce
  have NP: "set N \<inter> set P = {}" using N(4) P(2) by fastforce
  have TP: "set T \<inter> set P = {}" using T(4) P(2) by fastforce
  have d: "distinct (N @ T)" using N(2) T(2) NT by simp
  have "distinct P \<longrightarrow> distinct (library w')"
    using lib d NP TP by auto
  then show ?thesis using lib d N(3,4) T(3,4) P(2) by blast
qed

theorem registration_order_witness:
  "fst (main_process sample_openmc [''run''] [(''n_1-H-001g.jeff'', ''tsl_H_H2O.jeff'')]
          sample_args sample_world) = Inr ()
   \<and> library (snd (main_process sample_openmc [''run'']
                     [(''n_1-H-001g.jeff'', ''tsl_H_H2O.jeff'')] sample_args sample_world))
       = [[''jeff-4.0-hdf5'', ''neutron'', ''H1.h5''],
          [''jeff-4.0-hdf5'', ''neutron'', ''U235.h5''],
          [''jeff-4.0-hdf5'', ''thermal'', ''c_H_in_H2O.h5''],
          [''jeff-4.0-hdf5'', ''photon'', ''H.h5''],
          [''jeff-4.0-hdf5'', ''photon'', ''He.h5'']]
   \<and> (\<exists>N T P.
         library (snd (main_process sample_openmc [''run'']
                         [(''n_1-H-001g.jeff'', ''tsl_H_H2O.jeff'')] sample_args sample_world))
           = N @ T @ P
         \<and> distinct (N @ T)
         \<and> key_sorted (zam sample_openmc) N \<and> key_sorted (zam sample_openmc) T
         \<and> (\<forall>p \<in> set N. butlast p = destination sample_args @ [''neutron''])
         \<and> (\<forall>p \<in> set T. butlast p = destination sample_args @ [''thermal''])
         \<and> (\<forall>p \<in> set P. butlast p = destination sample_args @ [''photon'']))"
proof -
  let ?run = "main_process sample_openmc [''run''] [(''n_1-H-001g.jeff'', ''tsl_H_H2O.jeff'')]
                sample_args sample_world"
  have bound: "\<forall>s Z A m. zam sample_openmc s = Inr (Z, A, m) \<longrightarrow> Z < 1000"
    using gnds_zam_below_sentinel by (simp add: sample_openmc_def)
  have r: "fst ?run = Inr ()" by code_simp
  have l: "library (snd ?run)
       = [[''jeff-4.0-hdf5'', ''neutron'', ''H1.h5''],
          [''jeff-4.0-hdf5'', ''neutron'', ''U235.h5''],
          [''jeff-4.0-hdf5'', ''thermal'', ''c_H_in_H2O.h5''],
          [''jeff-4.0-hdf5'', ''photon'', ''H.h5''],
          [''jeff-4.0-hdf5'', ''photon'', ''He.h5'']]"
    by code_simp
  from r have run: "?run = (Inr (), snd ?run)" by (simp add: prod_eq_iff)
  from registration_order [OF bound run] obtain N T P where
    "library (snd ?run) = N @ T @ P" "distinct (N @ T)"
    "key_sorted (zam sample_openmc) N" "key_sorted (zam sample_openmc) T"
    "\<forall>p \<in> set N. butlast p = destination sample_args @ [''neutron'']"
    "\<forall>p \<in> set T. butlast p = destination sample_args @ [''thermal'']"
    "\<forall>p \<in> set P. butlast p = destination sample_args @ [''photon'']"
    by blast
  then have "\<exists>N T P. library (snd ?run) = N @ T @ P
         \<and> distinct (N @ T)
         \<and> key_sorted (zam sample_openmc) N \<and> key_sorted (zam sample_openmc) T
         \<and> (\<forall>p \<in> set N. butlast p = destination sample_args @ [''neutron''])
         \<and> (\<forall>p \<in> set T. butlast p = destination sample_args @ [''thermal''])
         \<and> (\<forall>p \<in> set P. butlast p = destination sample_args @ [''photon''])"
    by blast
  with r l show ?thesis by blast
qed

text \<open>
  C8, as stated, fails on the photon files. With the hydrogen files twice below the
  photon directory, both pairs convert to the material \<open>H\<close>: the run completes and the
  index holds \<open>H.h5\<close> twice.
\<close>

theorem registration_once_counterexample:
  "fst (main_process sample_openmc [''run''] [] (sample_args\<lparr>particles := [''photon'']\<rparr>)
          duplicate_world) = Inr ()
   \<and> library (snd (main_process sample_openmc [''run''] []
                     (sample_args\<lparr>particles := [''photon'']\<rparr>) duplicate_world))
       = [[''jeff-4.0-hdf5'', ''photon'', ''H.h5''], [''jeff-4.0-hdf5'', ''photon'', ''H.h5'']]
   \<and> \<not> distinct (library (snd (main_process sample_openmc [''run''] []
                                 (sample_args\<lparr>particles := [''photon'']\<rparr>) duplicate_world)))"
proof -
  have 1: "fst (main_process sample_openmc [''run''] []
                  (sample_args\<lparr>particles := [''photon'']\<rparr>) duplicate_world) = Inr ()"
    by code_simp
  have 2: "library (snd (main_process sample_openmc [''run''] []
                     (sample_args\<lparr>particles := [''photon'']\<rparr>) duplicate_world))
       = [[''jeff-4.0-hdf5'', ''photon'', ''H.h5''], [''jeff-4.0-hdf5'', ''photon'', ''H.h5'']]"
    by code_simp
  show ?thesis using 1 unfolding 2 by simp
qed

end
